theory Spec2Isabelle
  imports Main "HOL-Library.AList" "HOL-Library.Multiset"
begin

section \<open>JavaScript values and objects\<close>

text \<open>
  The signer works on plain JavaScript data: the type table, the message and the domain are
  object literals or the result of \<^verbatim>\<open>JSON.parse\<close>. A value is one of the JSON shapes plus
  \<^verbatim>\<open>undefined\<close>; numbers are modelled as integers (timestamps, nonces and chain ids are),
  and no value is a function.

  An object is the list of its own enumerable properties in the order \<^verbatim>\<open>Object.keys\<close>
  reports them; a well-formed object has pairwise distinct keys.
\<close>

datatype jsval =
    JUndefined
  | JNull
  | JBool bool
  | JNum int
  | JStr string
  | JArr "jsval list"
  | JObj "(string \<times> jsval) list"

type_synonym obj = "(string \<times> jsval) list"

text \<open>\<^verbatim>\<open>!v\<close>: the falsy values are undefined, null, false, 0 and the empty string.\<close>

fun falsy :: "jsval \<Rightarrow> bool" where
  "falsy JUndefined = True"
| "falsy JNull = True"
| "falsy (JBool b) = (\<not> b)"
| "falsy (JNum n) = (n = 0)"
| "falsy (JStr s) = (s = [])"
| "falsy (JArr xs) = False"
| "falsy (JObj ps) = False"

text \<open>\<^verbatim>\<open>o.hasOwnProperty(k)\<close> on an object that does not shadow the method.\<close>

definition hasOwn :: "obj \<Rightarrow> string \<Rightarrow> bool" where
  "hasOwn ob k = (map_of ob k \<noteq> None)"

text \<open>\<^verbatim>\<open>o[k]\<close> for reading: the own property, else \<^verbatim>\<open>undefined\<close>.\<close>

definition getProp :: "obj \<Rightarrow> string \<Rightarrow> jsval" where
  "getProp ob k = (case map_of ob k of None \<Rightarrow> JUndefined | Some v \<Rightarrow> v)"

text \<open>
  A property key is an array index when it is the canonical decimal spelling of an integer
  below \<open>2^32 - 1\<close>. \<^verbatim>\<open>Object.keys\<close> lists array indices first, in ascending numeric order,
  and every other string key after them in insertion order.
\<close>

definition isDigit :: "char \<Rightarrow> bool" where
  "isDigit c = (48 \<le> (of_char c :: nat) \<and> (of_char c :: nat) \<le> 57)"

definition decValue :: "string \<Rightarrow> nat" where
  "decValue s = foldl (\<lambda>acc c. 10 * acc + ((of_char c :: nat) - 48)) 0 s"

definition isArrayIndex :: "string \<Rightarrow> bool" where
  "isArrayIndex s =
     (s \<noteq> [] \<and> list_all isDigit s \<and> (hd s \<noteq> CHR ''0'' \<or> s = ''0'') \<and> decValue s < 4294967295)"

fun insertIndex :: "string \<Rightarrow> jsval \<Rightarrow> obj \<Rightarrow> obj" where
  "insertIndex k v [] = [(k, v)]"
| "insertIndex k v (p # ps) =
     (if isArrayIndex (fst p) \<and> decValue (fst p) < decValue k
      then p # insertIndex k v ps
      else (k, v) # p # ps)"

text \<open>
  \<^verbatim>\<open>o[k] = v\<close> on an ordinary object whose prototype is \<^verbatim>\<open>Object.prototype\<close>:
  the key \<^verbatim>\<open>__proto__\<close> reaches the inherited setter and creates no own property;
  an existing own property keeps its position; a new array index is placed among the
  indices; any other new key goes last.
\<close>

definition assign :: "string \<Rightarrow> jsval \<Rightarrow> obj \<Rightarrow> obj" where
  "assign k v ob =
     (if k = ''__proto__'' then ob
      else if hasOwn ob k then AList.update k v ob
      else if isArrayIndex k then insertIndex k v ob
      else ob @ [(k, v)])"

text \<open>The keys for which an assignment is an ordinary write: update in place or append.\<close>

definition plainKey :: "string \<Rightarrow> bool" where
  "plainKey k = (k \<noteq> ''__proto__'' \<and> \<not> isArrayIndex k)"

section \<open>The type table\<close>

record field =
  name :: string
  type :: string

type_synonym types = "(string \<times> field list) list"

text \<open>\<^verbatim>\<open>Object.keys(types).find(key => key !== 'EIP712Domain')\<close>; \<open>None\<close> is \<^verbatim>\<open>undefined\<close>.\<close>

definition findPrimary :: "types \<Rightarrow> string option" where
  "findPrimary ts = List.find (\<lambda>key. key \<noteq> ''EIP712Domain'') (map fst ts)"

text \<open>\<^verbatim>\<open>types[k]\<close> for a key the search has returned.\<close>

definition fieldsOf :: "types \<Rightarrow> string \<Rightarrow> field list" where
  "fieldsOf ts k = (case map_of ts k of None \<Rightarrow> [] | Some fs \<Rightarrow> fs)"

section \<open>EIP712Signer.generateDeadline\<close>

text \<open>
  \<^verbatim>\<open>Math.floor(Date.now() / 1000) + durationSeconds\<close>; the clock reading, in milliseconds
  since the epoch, is an argument of the model.
\<close>

definition generateDeadline :: "nat \<Rightarrow> int \<Rightarrow> int" where
  "generateDeadline nowMs durationSeconds = int (nowMs div 1000) + durationSeconds"

section \<open>EIP712Signer.checkFieldOrder\<close>

record orderCheck =
  isOrdered :: bool
  typeOrder :: "string list"
  messageOrder :: "string list"
  reorderedMessage :: obj
  primaryType :: "string option"

text \<open>
  The \<^verbatim>\<open>forEach\<close> over the declared names. Each iteration calls
  \<^verbatim>\<open>message.hasOwnProperty(fieldName)\<close>: when the message has an own property of that
  name the call reaches the property's value, which is no function, and a TypeError is
  thrown.
\<close>

fun reorderLoop :: "string list \<Rightarrow> obj \<Rightarrow> obj \<Rightarrow> string + obj" where
  "reorderLoop [] message acc = Inr acc"
| "reorderLoop (fieldName # rest) message acc =
     (if hasOwn message ''hasOwnProperty''
      then Inl ''message.hasOwnProperty is not a function''
      else if hasOwn message fieldName
      then reorderLoop rest message (assign fieldName (getProp message fieldName) acc)
      else reorderLoop rest message acc)"

text \<open>
  \<^verbatim>\<open>!primaryType\<close> holds for \<^verbatim>\<open>undefined\<close> and for the empty type name. The two
  orders are compared through \<^verbatim>\<open>JSON.stringify\<close>, which is injective on arrays of strings.
\<close>

definition checkFieldOrder :: "types \<Rightarrow> obj \<Rightarrow> string + orderCheck" where
  "checkFieldOrder ts message =
     (case findPrimary ts of
        None \<Rightarrow>
          Inr \<lparr>isOrdered = True, typeOrder = [], messageOrder = [],
               reorderedMessage = message, primaryType = None\<rparr>
      | Some p \<Rightarrow>
          if p = [] then
            Inr \<lparr>isOrdered = True, typeOrder = [], messageOrder = [],
                 reorderedMessage = message, primaryType = None\<rparr>
          else
            (let tOrder = map name (fieldsOf ts p);
                 mOrder = map fst message
             in case reorderLoop tOrder message [] of
                  Inl e \<Rightarrow> Inl e
                | Inr reordered \<Rightarrow>
                    Inr \<lparr>isOrdered = (tOrder = mOrder), typeOrder = tOrder,
                         messageOrder = mOrder, reorderedMessage = reordered,
                         primaryType = Some p\<rparr>))"

section \<open>The ethers library\<close>

text \<open>
  The signer calls the ethers library for everything cryptographic. The library is an
  argument of the model: the EIP-712 digest of a domain, a type table and a value tree
  (\<^verbatim>\<open>TypedDataEncoder.hash\<close>, which throws on a tree it cannot encode), signing a digest
  with a private key, recovering an address from a digest and a signature, the address of
  a key, and \<^verbatim>\<open>getAddress\<close>, which normalises an address or throws. \<open>Inl\<close> carries the
  message of a thrown error. The types of digests and signatures are left open.
\<close>

record ('dg, 'sg) ethers =
  hashTypedData :: "obj \<Rightarrow> types \<Rightarrow> obj \<Rightarrow> string + 'dg"
  signDigest :: "string \<Rightarrow> 'dg \<Rightarrow> 'sg"
  recoverAddress :: "'dg \<Rightarrow> 'sg \<Rightarrow> string + string"
  walletAddress :: "string \<Rightarrow> string"
  getAddress :: "jsval \<Rightarrow> string + string"

text \<open>\<^verbatim>\<open>wallet.signTypedData(domain, types, value)\<close>: the signature of the typed-data digest.\<close>

definition walletSignTypedData ::
  "('dg, 'sg) ethers \<Rightarrow> string \<Rightarrow> obj \<Rightarrow> types \<Rightarrow> obj \<Rightarrow> string + 'sg" where
  "walletSignTypedData L privateKey domain ts v =
     (case hashTypedData L domain ts v of
        Inl e \<Rightarrow> Inl e
      | Inr h \<Rightarrow> Inr (signDigest L privateKey h))"

text \<open>\<^verbatim>\<open>ethers.verifyTypedData(domain, types, value, signature)\<close>: the address recovered
  from the typed-data digest and the signature.\<close>

definition verifyTypedData ::
  "('dg, 'sg) ethers \<Rightarrow> obj \<Rightarrow> types \<Rightarrow> obj \<Rightarrow> 'sg \<Rightarrow> string + string" where
  "verifyTypedData L domain ts v sg =
     (case hashTypedData L domain ts v of
        Inl e \<Rightarrow> Inl e
      | Inr h \<Rightarrow> recoverAddress L h sg)"

section \<open>EIP712Signer.signTypedData\<close>

record 'sg signingResult =
  signature :: 'sg
  deadline :: jsval
  recoveredAddress :: string
  messageWithDeadline :: obj
  signer :: string

text \<open>The message of the error the \<^verbatim>\<open>catch\<close> block rethrows.\<close>

definition failed :: "string \<Rightarrow> string" where
  "failed e = ''Failed to sign typed data: '' @ e"

text \<open>The deadline used by the call: the argument unless it is falsy, else a generated one.\<close>

definition effectiveDeadline :: "jsval \<Rightarrow> nat \<Rightarrow> jsval" where
  "effectiveDeadline deadline0 nowMs =
     (if falsy deadline0 then JNum (generateDeadline nowMs 3600) else deadline0)"

text \<open>
  \<^verbatim>\<open>types[Object.keys(types).find(...)]\<close> is truthy and its field list has a field named
  \<^verbatim>\<open>deadline\<close>. \<^verbatim>\<open>types[undefined]\<close> is undefined, and a field list is truthy even when
  empty.
\<close>

definition declaresDeadline :: "types \<Rightarrow> bool" where
  "declaresDeadline ts =
     (case findPrimary ts of
        None \<Rightarrow> False
      | Some p \<Rightarrow> list_ex (\<lambda>f. name f = ''deadline'') (fieldsOf ts p))"

text \<open>The copy \<^verbatim>\<open>{ ...value }\<close>, with \<^verbatim>\<open>deadline\<close> assigned when the type declares it.\<close>

definition withDeadline :: "types \<Rightarrow> obj \<Rightarrow> jsval \<Rightarrow> obj" where
  "withDeadline ts v deadline0 =
     (if declaresDeadline ts then assign ''deadline'' deadline0 v else v)"

text \<open>
  The value after the order check: the reordered copy when the orders differ, the
  caller's object otherwise.
\<close>

definition reconcile :: "types \<Rightarrow> obj \<Rightarrow> string + obj" where
  "reconcile ts v =
     (case checkFieldOrder ts v of
        Inl e \<Rightarrow> Inl e
      | Inr orderCheck \<Rightarrow>
          Inr (if \<not> isOrdered orderCheck then reorderedMessage orderCheck else v))"

text \<open>
  The part of \<^verbatim>\<open>signTypedData\<close> that runs before the library is called. The result is the
  deadline of the call and the value tree handed to the library.
\<close>

definition signedMessage :: "types \<Rightarrow> obj \<Rightarrow> jsval \<Rightarrow> nat \<Rightarrow> string + (jsval \<times> obj)" where
  "signedMessage ts v deadline0 nowMs =
     (case reconcile ts v of
        Inl e \<Rightarrow> Inl e
      | Inr v1 \<Rightarrow>
          (let deadline1 = effectiveDeadline deadline0 nowMs
           in Inr (deadline1, withDeadline ts v1 deadline1)))"

definition signTypedData ::
  "('dg, 'sg) ethers \<Rightarrow> string \<Rightarrow> obj \<Rightarrow> types \<Rightarrow> obj \<Rightarrow> jsval \<Rightarrow> nat
     \<Rightarrow> string + 'sg signingResult" where
  "signTypedData L privateKey domain ts v deadline0 nowMs =
     (case signedMessage ts v deadline0 nowMs of
        Inl e \<Rightarrow> Inl (failed e)
      | Inr (deadline1, mwd) \<Rightarrow>
          (case walletSignTypedData L privateKey domain ts mwd of
             Inl e \<Rightarrow> Inl (failed e)
           | Inr sg \<Rightarrow>
               (case verifyTypedData L domain ts mwd sg of
                  Inl e \<Rightarrow> Inl (failed e)
                | Inr recovered \<Rightarrow>
                    Inr \<lparr>signature = sg, deadline = deadline1, recoveredAddress = recovered,
                         messageWithDeadline = mwd, signer = walletAddress L privateKey\<rparr>)))"

text \<open>The digest the library signs in a call of \<^verbatim>\<open>signTypedData\<close>.\<close>

definition signingDigest ::
  "('dg, 'sg) ethers \<Rightarrow> obj \<Rightarrow> types \<Rightarrow> obj \<Rightarrow> jsval \<Rightarrow> nat \<Rightarrow> string + 'dg" where
  "signingDigest L domain ts v deadline0 nowMs =
     (case signedMessage ts v deadline0 nowMs of
        Inl e \<Rightarrow> Inl (failed e)
      | Inr (deadline1, mwd) \<Rightarrow>
          (case hashTypedData L domain ts mwd of
             Inl e \<Rightarrow> Inl (failed e)
           | Inr h \<Rightarrow> Inr h))"

section \<open>EIP712Signer.signPermit\<close>

definition permitTypes :: types where
  "permitTypes =
     [(''Permit'',
       [\<lparr>name = ''owner'', type = ''address''\<rparr>,
        \<lparr>name = ''spender'', type = ''address''\<rparr>,
        \<lparr>name = ''value'', type = ''uint256''\<rparr>,
        \<lparr>name = ''nonce'', type = ''uint256''\<rparr>,
        \<lparr>name = ''deadline'', type = ''uint256''\<rparr>])]"

text \<open>A destructuring default applies when the property is missing or undefined.\<close>

definition withDefault :: "jsval \<Rightarrow> jsval \<Rightarrow> jsval" where
  "withDefault v d = (if v = JUndefined then d else v)"

text \<open>
  The calls of \<^verbatim>\<open>getAddress\<close> are outside any \<^verbatim>\<open>try\<close>: their errors leave
  \<^verbatim>\<open>signPermit\<close> as they are, in the order the object literals evaluate them.
\<close>

definition signPermit ::
  "('dg, 'sg) ethers \<Rightarrow> string \<Rightarrow> obj \<Rightarrow> nat \<Rightarrow> string + 'sg signingResult" where
  "signPermit L privateKey permitData nowMs =
     (let tokenName = getProp permitData ''tokenName'';
          tokenVersion = withDefault (getProp permitData ''tokenVersion'') (JStr ''1'');
          chainId = getProp permitData ''chainId'';
          verifyingContract = getProp permitData ''verifyingContract'';
          owner = getProp permitData ''owner'';
          spender = getProp permitData ''spender'';
          val = getProp permitData ''value'';
          nonce = getProp permitData ''nonce'';
          deadline = withDefault (getProp permitData ''deadline'') JNull
      in case getAddress L verifyingContract of
           Inl e \<Rightarrow> Inl e
         | Inr contract \<Rightarrow>
             (let domain = [(''name'', tokenName), (''version'', tokenVersion),
                            (''chainId'', chainId), (''verifyingContract'', JStr contract)]
              in case (if falsy owner then Inr (walletAddress L privateKey)
                       else getAddress L owner) of
                   Inl e \<Rightarrow> Inl e
                 | Inr ownerAddress \<Rightarrow>
                     (case getAddress L spender of
                        Inl e \<Rightarrow> Inl e
                      | Inr spenderAddress \<Rightarrow>
                          (let message =
                                 [(''owner'', JStr ownerAddress),
                                  (''spender'', JStr spenderAddress),
                                  (''value'', val),
                                  (''nonce'', nonce),
                                  (''deadline'',
                                   if falsy deadline then JNum (generateDeadline nowMs 3600)
                                   else deadline)]
                           in signTypedData L privateKey domain permitTypes message
                                (getProp message ''deadline'') nowMs))))"

section \<open>An ideal library\<close>

text \<open>
  A library in which hashing is free of collisions and signatures are unforgeable by
  construction: the digest is the triple that was hashed, a signature is the key with the
  digest, and recovery returns the key's address when the digest is the signed one. It
  serves to run the signer on concrete inputs.
\<close>

type_synonym idealDigest = "obj \<times> types \<times> obj"

definition ideal :: "(idealDigest, string \<times> idealDigest) ethers" where
  "ideal =
     \<lparr>hashTypedData = (\<lambda>domain ts v. Inr (domain, ts, v)),
      signDigest = (\<lambda>privateKey h. (privateKey, h)),
      recoverAddress = (\<lambda>h sg. if snd sg = h then Inr (''address of '' @ fst sg)
                                 else Inl ''invalid signature''),
      walletAddress = (\<lambda>privateKey. ''address of '' @ privateKey),
      getAddress = (\<lambda>v. case v of JStr s \<Rightarrow> Inr s | _ \<Rightarrow> Inl ''invalid address'')\<rparr>"

text \<open>The same library with a recovery that answers the zero address for every input.\<close>

definition misrecovering :: "(idealDigest, string \<times> idealDigest) ethers" where
  "misrecovering =
     ideal\<lparr>recoverAddress := (\<lambda>h sg. Inr ''0x0000000000000000000000000000000000000000'')\<rparr>"

section \<open>Example inputs\<close>

text \<open>
  The inputs below are those of the repository's test script and README: the key of the
  debug script, the domain and the \<^verbatim>\<open>Action\<close> type of the deadline test, the \<^verbatim>\<open>Vote\<close> type
  of the command-line example, and a two-type table in both key orders.
\<close>

definition testKey :: string where
  "testKey = ''0x1137a988850a48f6079308dad260bcab640a19af78852b2407fc3d1debe582d0''"

definition testDomain :: obj where
  "testDomain =
     [(''name'', JStr ''DeadlineTest''), (''version'', JStr ''1''), (''chainId'', JNum 1),
      (''verifyingContract'', JStr ''0x1234567890123456789012345678901234567890'')]"

definition actionTypes :: types where
  "actionTypes =
     [(''Action'',
       [\<lparr>name = ''user'', type = ''address''\<rparr>,
        \<lparr>name = ''action'', type = ''string''\<rparr>,
        \<lparr>name = ''deadline'', type = ''uint256''\<rparr>])]"

definition actionMessage :: obj where
  "actionMessage =
     [(''user'', JStr ''0x5Dde7d9b46D1Ae3338A3d9f7d6dC2F214738Ed15''),
      (''action'', JStr ''withdraw'')]"

definition voteTypes :: types where
  "voteTypes =
     [(''Vote'',
       [\<lparr>name = ''proposal'', type = ''uint256''\<rparr>,
        \<lparr>name = ''support'', type = ''bool''\<rparr>])]"

definition personFields :: "field list" where
  "personFields = [\<lparr>name = ''name'', type = ''string''\<rparr>, \<lparr>name = ''wallet'', type = ''address''\<rparr>]"

definition mailFields :: "field list" where
  "mailFields =
     [\<lparr>name = ''from'', type = ''Person''\<rparr>,
      \<lparr>name = ''to'', type = ''Person''\<rparr>,
      \<lparr>name = ''contents'', type = ''string''\<rparr>]"

definition mailMessage :: obj where
  "mailMessage =
     [(''contents'', JStr ''Hello''),
      (''to'', JObj [(''wallet'', JStr ''0xB''), (''name'', JStr ''Bob'')]),
      (''from'', JObj [(''wallet'', JStr ''0xC''), (''name'', JStr ''Cow'')])]"

text \<open>The permit of the test script, and the same permit with an explicit deadline of 0.\<close>

definition testPermit :: obj where
  "testPermit =
     [(''tokenName'', JStr ''Test Token''), (''chainId'', JNum 1),
      (''verifyingContract'', JStr ''0xA0b86a33E6441e3a8b06dd2BC5BF6ef5C0aA2CB0''),
      (''spender'', JStr ''0x7a250d5630B4cF539739dF2C5dAcb4c659F2488D''),
      (''value'', JStr ''1000000000000000000''), (''nonce'', JNum 0)]"



section \<open>Keccak-256\<close>

text \<open>
  The debug scripts hash with \<^verbatim>\<open>ethers.keccak256\<close>, the Keccak-256 of Ethereum: the sponge
  over the permutation Keccak-f[1600] with a rate of 136 bytes, the padding byte \<open>0x01\<close>
  and the closing bit \<open>0x80\<close>. A lane is the list of its 64 bits, least significant first;
  a state is the list of its 25 lanes, lane \<open>x + 5y\<close> at column \<open>x\<close> and row \<open>y\<close>.
\<close>

type_synonym lane = "bool list"

text \<open>Exclusive or, and the bit of the step \<open>\<chi>\<close>: \<open>a xor (not b and c)\<close>.\<close>

fun bxor :: "bool \<Rightarrow> bool \<Rightarrow> bool" where
  "bxor False False = False"
| "bxor False True = True"
| "bxor True False = True"
| "bxor True True = False"

definition chiBit :: "bool \<Rightarrow> bool \<Rightarrow> bool \<Rightarrow> bool" where
  "chiBit a b c = bxor a (\<not> b \<and> c)"

fun xorL :: "lane \<Rightarrow> lane \<Rightarrow> lane" where
  "xorL (a # as) (b # bs) = bxor a b # xorL as bs"
| "xorL [] bs = []"
| "xorL as [] = []"

fun chiL :: "lane \<Rightarrow> lane \<Rightarrow> lane \<Rightarrow> lane" where
  "chiL (a # as) (b # bs) (c # cs) = chiBit a b c # chiL as bs cs"
| "chiL [] bs cs = []"
| "chiL as [] cs = []"
| "chiL as bs [] = []"

definition xor5 :: "lane \<Rightarrow> lane \<Rightarrow> lane \<Rightarrow> lane \<Rightarrow> lane \<Rightarrow> lane" where
  "xor5 a b c d e = xorL a (xorL b (xorL c (xorL d e)))"

text \<open>Rotation of a lane by \<open>n\<close> bits towards the most significant bit.\<close>

definition rotl :: "nat \<Rightarrow> lane \<Rightarrow> lane" where
  "rotl n l = drop (64 - n) l @ take (64 - n) l"

text \<open>
  The step \<open>\<theta>\<close>: the parity of each column, the combination of the two neighbouring
  columns, and its addition to every lane of the column.
\<close>

fun thetaC :: "lane list \<Rightarrow> lane list" where
  "thetaC [a0, a1, a2, a3, a4, a5, a6, a7, a8, a9, a10, a11, a12, a13, a14, a15, a16, a17,
          a18, a19, a20, a21, a22, a23, a24] =
     [xor5 a0 a5 a10 a15 a20, xor5 a1 a6 a11 a16 a21, xor5 a2 a7 a12 a17 a22,
     xor5 a3 a8 a13 a18 a23, xor5 a4 a9 a14 a19 a24]"
| "thetaC _ = []"

fun thetaD :: "lane list \<Rightarrow> lane list" where
  "thetaD [c0, c1, c2, c3, c4] =
     [xorL c4 (rotl 1 c1), xorL c0 (rotl 1 c2), xorL c1 (rotl 1 c3), xorL c2 (rotl 1 c4),
     xorL c3 (rotl 1 c0)]"
| "thetaD _ = []"

fun thetaXor :: "lane list \<Rightarrow> lane list \<Rightarrow> lane list" where
  "thetaXor [d0, d1, d2, d3, d4]
     [a0, a1, a2, a3, a4, a5, a6, a7, a8, a9, a10, a11, a12, a13, a14, a15, a16, a17, a18,
     a19, a20, a21, a22, a23, a24] =
     [xorL a0 d0, xorL a1 d1, xorL a2 d2, xorL a3 d3, xorL a4 d4, xorL a5 d0, xorL a6 d1,
     xorL a7 d2, xorL a8 d3, xorL a9 d4, xorL a10 d0, xorL a11 d1, xorL a12 d2, xorL a13 d3,
     xorL a14 d4, xorL a15 d0, xorL a16 d1, xorL a17 d2, xorL a18 d3, xorL a19 d4,
     xorL a20 d0, xorL a21 d1, xorL a22 d2, xorL a23 d3, xorL a24 d4]"
| "thetaXor _ _ = []"

definition theta :: "lane list \<Rightarrow> lane list" where
  "theta a = thetaXor (thetaD (thetaC a)) a"

text \<open>The steps \<open>\<rho>\<close> and \<open>\<pi>\<close>: lane \<open>(x, y)\<close>, rotated by its offset, moves to \<open>(y, 2x + 3y)\<close>.\<close>

fun rhoPi :: "lane list \<Rightarrow> lane list" where
  "rhoPi [a0, a1, a2, a3, a4, a5, a6, a7, a8, a9, a10, a11, a12, a13, a14, a15, a16, a17,
         a18, a19, a20, a21, a22, a23, a24] =
     [rotl 0 a0, rotl 44 a6, rotl 43 a12, rotl 21 a18, rotl 14 a24, rotl 28 a3, rotl 20 a9,
     rotl 3 a10, rotl 45 a16, rotl 61 a22, rotl 1 a1, rotl 6 a7, rotl 25 a13, rotl 8 a19,
     rotl 18 a20, rotl 27 a4, rotl 36 a5, rotl 10 a11, rotl 15 a17, rotl 56 a23, rotl 62 a2,
     rotl 55 a8, rotl 39 a14, rotl 41 a15, rotl 2 a21]"
| "rhoPi _ = []"

text \<open>The step \<open>\<chi>\<close>, along each row.\<close>

fun chi :: "lane list \<Rightarrow> lane list" where
  "chi [a0, a1, a2, a3, a4, a5, a6, a7, a8, a9, a10, a11, a12, a13, a14, a15, a16, a17, a18,
       a19, a20, a21, a22, a23, a24] =
     [chiL a0 a1 a2, chiL a1 a2 a3, chiL a2 a3 a4, chiL a3 a4 a0, chiL a4 a0 a1,
     chiL a5 a6 a7, chiL a6 a7 a8, chiL a7 a8 a9, chiL a8 a9 a5, chiL a9 a5 a6,
     chiL a10 a11 a12, chiL a11 a12 a13, chiL a12 a13 a14, chiL a13 a14 a10,
     chiL a14 a10 a11, chiL a15 a16 a17, chiL a16 a17 a18, chiL a17 a18 a19,
     chiL a18 a19 a15, chiL a19 a15 a16, chiL a20 a21 a22, chiL a21 a22 a23,
     chiL a22 a23 a24, chiL a23 a24 a20, chiL a24 a20 a21]"
| "chi _ = []"

text \<open>The step \<open>\<iota>\<close> adds the round constant to lane 0; a round is the five steps in order.\<close>

fun iota :: "lane \<Rightarrow> lane list \<Rightarrow> lane list" where
  "iota rc (a0 # rest) = xorL a0 rc # rest"
| "iota rc [] = []"

fun rounds :: "lane list \<Rightarrow> lane list \<Rightarrow> lane list" where
  "rounds [] a = a"
| "rounds (rc # rcs) a = rounds rcs (iota rc (chi (rhoPi (theta a))))"

text \<open>
  Taking and dropping as many elements as another list has: the counter is a list, so
  that a rotation on explicit bits needs no arithmetic.
\<close>

fun takeT :: "unit list \<Rightarrow> 'a list \<Rightarrow> 'a list" where
  "takeT (u # t) (x # xs) = x # takeT t xs"
| "takeT [] xs = []"
| "takeT t [] = []"

fun dropT :: "unit list \<Rightarrow> 'a list \<Rightarrow> 'a list" where
  "dropT (u # t) (x # xs) = dropT t xs"
| "dropT [] xs = xs"
| "dropT t [] = []"

text \<open>The rotation by the length of a list short of 64.\<close>

definition rotT :: "unit list \<Rightarrow> lane \<Rightarrow> lane" where
  "rotT t l = dropT t l @ takeT t l"

section \<open>Bytes and the sponge\<close>

text \<open>
  A byte is a character, whose eight bits are the arguments of \<open>Char\<close>, least significant
  first. Hex strings are read two digits a byte, in either case.
\<close>

type_synonym bytes = "char list"

fun letterNibble :: "bool \<Rightarrow> bool \<Rightarrow> bool \<Rightarrow> bool list" where
  "letterNibble True False False = [False, True, False, True]"
| "letterNibble False True False = [True, True, False, True]"
| "letterNibble True True False = [False, False, True, True]"
| "letterNibble False False True = [True, False, True, True]"
| "letterNibble True False True = [False, True, True, True]"
| "letterNibble False True True = [True, True, True, True]"
| "letterNibble False False False = []"
| "letterNibble True True True = []"

fun nibble :: "char \<Rightarrow> bool list" where
  "nibble (Char b0 b1 b2 b3 h0 h1 h2 h3) =
     (if \<not> h3 \<and> \<not> h2 \<and> h1 \<and> h0 \<and> \<not> (b3 \<and> (b2 \<or> b1)) then [b0, b1, b2, b3]
      else if \<not> h3 \<and> h2 \<and> \<not> h0 \<and> \<not> b3 then letterNibble b0 b1 b2
      else [])"

fun byteOf :: "bool list \<Rightarrow> bool list \<Rightarrow> bytes" where
  "byteOf [h0, h1, h2, h3] [l0, l1, l2, l3] = [Char l0 l1 l2 l3 h0 h1 h2 h3]"
| "byteOf _ _ = []"

fun hexBytes :: "string \<Rightarrow> bytes" where
  "hexBytes (h # l # rest) = byteOf (nibble h) (nibble l) @ hexBytes rest"
| "hexBytes _ = []"

fun hexDigit :: "bool \<Rightarrow> bool \<Rightarrow> bool \<Rightarrow> bool \<Rightarrow> char" where
  "hexDigit False False False False = CHR ''0''"
| "hexDigit True False False False = CHR ''1''"
| "hexDigit False True False False = CHR ''2''"
| "hexDigit True True False False = CHR ''3''"
| "hexDigit False False True False = CHR ''4''"
| "hexDigit True False True False = CHR ''5''"
| "hexDigit False True True False = CHR ''6''"
| "hexDigit True True True False = CHR ''7''"
| "hexDigit False False False True = CHR ''8''"
| "hexDigit True False False True = CHR ''9''"
| "hexDigit False True False True = CHR ''a''"
| "hexDigit True True False True = CHR ''b''"
| "hexDigit False False True True = CHR ''c''"
| "hexDigit True False True True = CHR ''d''"
| "hexDigit False True True True = CHR ''e''"
| "hexDigit True True True True = CHR ''f''"

fun hexOf :: "bytes \<Rightarrow> string" where
  "hexOf [] = []"
| "hexOf (Char l0 l1 l2 l3 h0 h1 h2 h3 # rest) = hexDigit h0 h1 h2 h3 # hexDigit l0 l1 l2 l3 # hexOf rest"

text \<open>Eight bytes are a lane, the first byte the least significant.\<close>

fun laneOf :: "bytes \<Rightarrow> lane" where
  "laneOf [] = []"
| "laneOf (Char b0 b1 b2 b3 b4 b5 b6 b7 # rest) = b0 # b1 # b2 # b3 # b4 # b5 # b6 # b7 # laneOf rest"

fun bytesOf :: "lane \<Rightarrow> bytes" where
  "bytesOf (b0 # b1 # b2 # b3 # b4 # b5 # b6 # b7 # rest) = Char b0 b1 b2 b3 b4 b5 b6 b7 # bytesOf rest"
| "bytesOf _ = []"

text \<open>The 24 round constants, written as the source of the standard does, in hex.\<close>

definition roundConstants :: "lane list" where
  "roundConstants = map (\<lambda>h. laneOf (rev (hexBytes h)))
     [''0000000000000001'', ''0000000000008082'', ''800000000000808A'', ''8000000080008000'',
      ''000000000000808B'', ''0000000080000001'', ''8000000080008081'', ''8000000000008009'',
      ''000000000000008A'', ''0000000000000088'', ''0000000080008009'', ''000000008000000A'',
      ''000000008000808B'', ''800000000000008B'', ''8000000000008089'', ''8000000000008003'',
      ''8000000000008002'', ''8000000000000080'', ''000000000000800A'', ''800000008000000A'',
      ''8000000080008081'', ''8000000000008080'', ''0000000080000001'', ''8000000080008008'']"

definition keccakF :: "lane list \<Rightarrow> lane list" where
  "keccakF a = rounds roundConstants a"

text \<open>
  Absorbing: the 17 lanes of each block of 136 bytes are added to the state, which is then
  permuted. The digest is the first four lanes of the final state.
\<close>

fun xorInto :: "lane list \<Rightarrow> lane list \<Rightarrow> lane list" where
  "xorInto (l # ls) (a # as) = xorL a l # xorInto ls as"
| "xorInto [] as = as"
| "xorInto ls [] = []"

fun lanesOf :: "bytes \<Rightarrow> lane list" where
  "lanesOf (c0 # c1 # c2 # c3 # c4 # c5 # c6 # c7 # rest) =
     laneOf [c0, c1, c2, c3, c4, c5, c6, c7] # lanesOf rest"
| "lanesOf _ = []"

function absorb :: "lane list \<Rightarrow> bytes \<Rightarrow> lane list" where
  "absorb a bs =
     (if bs = [] then a
      else absorb (keccakF (xorInto (lanesOf (take 136 bs)) a)) (drop 136 bs))"
  by pat_completeness auto
termination
  by (relation "measure (\<lambda>(a, bs). length bs)") auto

definition pad :: "bytes \<Rightarrow> bytes" where
  "pad bs =
     (let q = 136 - length bs mod 136
      in if q = 1 then bs @ hexBytes ''81''
         else bs @ hexBytes ''01'' @ replicate (q - 2) (CHR 0x00) @ hexBytes ''80'')"

definition zeroState :: "lane list" where
  "zeroState = replicate 25 (replicate 64 False)"

definition keccak :: "bytes \<Rightarrow> bytes" where
  "keccak bs = concat (map bytesOf (take 4 (absorb zeroState (pad bs))))"

text \<open>\<^verbatim>\<open>ethers.keccak256\<close> answers the digest as a hex string with the prefix \<^verbatim>\<open>0x\<close>.\<close>

definition keccak256 :: "bytes \<Rightarrow> string" where
  "keccak256 bs = ''0x'' @ hexOf (keccak bs)"

text \<open>\<^verbatim>\<open>ethers.getBytes\<close> of a hex string with the prefix \<^verbatim>\<open>0x\<close>.\<close>

fun getBytes :: "string \<Rightarrow> bytes" where
  "getBytes (z # x # digits) = hexBytes digits"
| "getBytes _ = []"

text \<open>
  \<^verbatim>\<open>ethers.toUtf8Bytes\<close> on code points below 256: one byte below 128, else the two bytes
  \<open>110000xx 10xxxxxx\<close>.
\<close>

fun utf8 :: "char \<Rightarrow> bytes" where
  "utf8 (Char b0 b1 b2 b3 b4 b5 b6 b7) =
     (if b7 then [Char b6 True False False False False True True,
                  Char b0 b1 b2 b3 b4 b5 False True]
      else [Char b0 b1 b2 b3 b4 b5 b6 False])"

definition toUtf8Bytes :: "string \<Rightarrow> bytes" where
  "toUtf8Bytes s = concat (map utf8 s)"

section \<open>Packed encoding\<close>

text \<open>
  \<^verbatim>\<open>ethers.solidityPacked(types, values)\<close> for the seven types the debug scripts pass: a
  string as its UTF-8 bytes, a bool as one byte, an address and a fixed-size byte string as
  the bytes of the hex string, an unsigned integer (a number or a decimal string) big-endian
  in its full width. Nothing is padded to 32 bytes. The scripts pass well-formed values
  only; where ethers would throw, the model answers no bytes.

  The bits of a number, least significant first, give its big-endian bytes.
\<close>

fun numBits :: "num \<Rightarrow> bool list" where
  "numBits num.One = [True]"
| "numBits (num.Bit0 k) = False # numBits k"
| "numBits (num.Bit1 k) = True # numBits k"

function natBits :: "nat \<Rightarrow> bool list" where
  "natBits n = (if n = 0 then [] else odd n # natBits (n div 2))"
  by pat_completeness auto
termination
  by (relation "measure id") auto

definition beBytes :: "nat \<Rightarrow> nat \<Rightarrow> bytes" where
  "beBytes n v = rev (bytesOf (take (8 * n) (natBits v @ replicate (8 * n) False)))"

fun strOf :: "jsval \<Rightarrow> string" where
  "strOf (JStr s) = s"
| "strOf _ = []"

fun toNat :: "jsval \<Rightarrow> nat" where
  "toNat (JNum n) = nat n"
| "toNat (JStr s) = decValue s"
| "toNat _ = 0"

definition packValue :: "string \<Rightarrow> jsval \<Rightarrow> bytes" where
  "packValue t v =
     (if t = ''string'' then toUtf8Bytes (strOf v)
      else if t = ''bool'' then (if falsy v then hexBytes ''00'' else hexBytes ''01'')
      else if t = ''address'' \<or> t = ''bytes32'' \<or> t = ''bytes1'' then getBytes (strOf v)
      else if t = ''uint256'' then beBytes 32 (toNat v)
      else if t = ''uint32'' then beBytes 4 (toNat v)
      else [])"

definition solidityPacked :: "string list \<Rightarrow> jsval list \<Rightarrow> bytes" where
  "solidityPacked ts vs = concat (map (\<lambda>(t, v). packValue t v) (zip ts vs))"

section \<open>The debug scripts\<close>

text \<open>
  \<^verbatim>\<open>debugEIP712Construction\<close> and \<^verbatim>\<open>recoverAddressTest\<close> build a digest by hand for the same
  domain. Both compute the domain separator in the same way.
\<close>

definition gnosisDomain :: obj where
  "gnosisDomain =
     [(''name'', JStr ''Gnosis Protocol''), (''version'', JStr ''v2''), (''chainId'', JNum 1),
      (''verifyingContract'', JStr ''0x9008D19f58AAbD9eD0D60971565AA8510560ab41'')]"

definition domainTypeHash :: string where
  "domainTypeHash =
     keccak256 (toUtf8Bytes
      (''EIP712Domain(string name,string version,uint256 chainId,'' @
       ''address verifyingContract)''))"

definition nameHash :: string where
  "nameHash = keccak256 (toUtf8Bytes (strOf (getProp gnosisDomain ''name'')))"

definition versionHash :: string where
  "versionHash = keccak256 (toUtf8Bytes (strOf (getProp gnosisDomain ''version'')))"

definition domainSeparator :: string where
  "domainSeparator =
     keccak256 (solidityPacked
       [''bytes32'', ''bytes32'', ''bytes32'', ''uint256'', ''address'']
       [JStr domainTypeHash, JStr nameHash, JStr versionHash,
        getProp gnosisDomain ''chainId'', getProp gnosisDomain ''verifyingContract''])"

text \<open>
  \<^verbatim>\<open>debugEIP712Construction\<close>: the type string declares \<^verbatim>\<open>kind\<close>, \<^verbatim>\<open>sellTokenBalance\<close> and
  \<^verbatim>\<open>buyTokenBalance\<close> as \<^verbatim>\<open>string\<close>, and their slots are the hashes of the strings. The
  hashes, the struct hash and the digest are written as functions of the script's local
  \<^verbatim>\<open>message\<close>, which the script fixes to \<open>debugMessage\<close>.
\<close>

definition debugMessage :: obj where
  "debugMessage =
     [(''sellToken'', JStr ''0xA0b86991c6218b36c1d19D4a2e9Eb0cE3606eB48''),
      (''buyToken'', JStr ''0xdAC17F958D2ee523a2206206994597C13D831ec7''),
      (''receiver'', JStr ''0x5Dde7d9b46D1Ae3338A3d9f7d6dC2F214738Ed15''),
      (''sellAmount'', JStr ''9077413''),
      (''buyAmount'', JStr ''9061733''),
      (''validTo'', JNum 1758209010),
      (''appData'', JStr ''0x04bc4286b5202cee3733fe058851602586be788e278e88a29baab1f95b77a043''),
      (''feeAmount'', JStr ''922587''),
      (''kind'', JStr ''Sell''),
      (''partiallyFillable'', JBool False),
      (''sellTokenBalance'', JStr ''erc20''),
      (''buyTokenBalance'', JStr ''erc20'')]"

definition debugOrderTypeHash :: string where
  "debugOrderTypeHash =
     keccak256 (toUtf8Bytes
      (''Order(address sellToken,address buyToken,address receiver,'' @
       ''uint256 sellAmount,uint256 buyAmount,uint32 validTo,bytes32 appData,'' @
       ''uint256 feeAmount,string kind,bool partiallyFillable,'' @
       ''string sellTokenBalance,string buyTokenBalance)''))"

definition kindHash :: "obj \<Rightarrow> string" where
  "kindHash message = keccak256 (toUtf8Bytes (strOf (getProp message ''kind'')))"

definition sellTokenBalanceHash :: "obj \<Rightarrow> string" where
  "sellTokenBalanceHash message =
     keccak256 (toUtf8Bytes (strOf (getProp message ''sellTokenBalance'')))"

definition buyTokenBalanceHash :: "obj \<Rightarrow> string" where
  "buyTokenBalanceHash message =
     keccak256 (toUtf8Bytes (strOf (getProp message ''buyTokenBalance'')))"

text \<open>The bytes that the script hashes into \<^verbatim>\<open>structHash\<close>: the type hash, then the twelve slots.\<close>

definition debugStructEncoding :: "obj \<Rightarrow> bytes" where
  "debugStructEncoding message =
     solidityPacked
       [''bytes32'', ''address'', ''address'', ''address'', ''uint256'', ''uint256'', ''uint32'',
        ''bytes32'', ''uint256'', ''bytes32'', ''bool'', ''bytes32'', ''bytes32'']
       [JStr debugOrderTypeHash, getProp message ''sellToken'',
        getProp message ''buyToken'', getProp message ''receiver'',
        getProp message ''sellAmount'', getProp message ''buyAmount'',
        getProp message ''validTo'', getProp message ''appData'',
        getProp message ''feeAmount'', JStr (kindHash message),
        getProp message ''partiallyFillable'', JStr (sellTokenBalanceHash message),
        JStr (buyTokenBalanceHash message)]"

definition debugStructHash :: "obj \<Rightarrow> string" where
  "debugStructHash message = keccak256 (debugStructEncoding message)"

definition debugDigest :: "obj \<Rightarrow> string" where
  "debugDigest message =
     keccak256 (solidityPacked [''string'', ''bytes32'', ''bytes32'']
       [JStr [CHR 0x19, CHR 0x01], JStr domainSeparator, JStr (debugStructHash message)])"

text \<open>
  \<^verbatim>\<open>recoverAddressTest\<close>: the type string declares the three fields as \<^verbatim>\<open>bytes32\<close> (and
  \<^verbatim>\<open>partiallyFillable\<close> as \<^verbatim>\<open>bytes1\<close>), and the message's values are packed as they are.
  The script fixes its local \<^verbatim>\<open>message\<close> to \<open>recoverMessage\<close>.
\<close>

definition recoverMessage :: obj where
  "recoverMessage =
     [(''sellToken'', JStr ''0xA0b86991c6218b36c1d19D4a2e9Eb0cE3606eB48''),
      (''buyToken'', JStr ''0xdAC17F958D2ee523a2206206994597C13D831ec7''),
      (''receiver'', JStr ''0x0000000000000000000000000000000000000000''),
      (''sellAmount'', JStr ''9077413''),
      (''buyAmount'', JStr ''9061733''),
      (''validTo'', JNum 1758213165),
      (''appData'', JStr ''0x04bc4286b5202cee3733fe058851602586be788e278e88a29baab1f95b77a043''),
      (''feeAmount'', JStr ''922587''),
      (''kind'', JStr ''0xf3b277728b3fee749481eb3e0b3b48980dbbab78658fc419025cb16eee346775''),
      (''partiallyFillable'', JStr ''0x00''),
      (''sellTokenBalance'', JStr ''0x5a28e9363bb942b639270062aa6bb295f434bcdfc42c97267bf003f272060dc9''),
      (''buyTokenBalance'', JStr ''0x5a28e9363bb942b639270062aa6bb295f434bcdfc42c97267bf003f272060dc9'')]"

definition recoverOrderTypeHash :: string where
  "recoverOrderTypeHash =
     keccak256 (toUtf8Bytes
      (''Order(address sellToken,address buyToken,address receiver,'' @
       ''uint256 sellAmount,uint256 buyAmount,uint32 validTo,bytes32 appData,'' @
       ''uint256 feeAmount,bytes32 kind,bytes1 partiallyFillable,'' @
       ''bytes32 sellTokenBalance,bytes32 buyTokenBalance)''))"

definition recoverStructEncoding :: "obj \<Rightarrow> bytes" where
  "recoverStructEncoding message =
     solidityPacked
       [''bytes32'', ''address'', ''address'', ''address'', ''uint256'', ''uint256'', ''uint32'',
        ''bytes32'', ''uint256'', ''bytes32'', ''bytes1'', ''bytes32'', ''bytes32'']
       [JStr recoverOrderTypeHash, getProp message ''sellToken'',
        getProp message ''buyToken'', getProp message ''receiver'',
        getProp message ''sellAmount'', getProp message ''buyAmount'',
        getProp message ''validTo'', getProp message ''appData'',
        getProp message ''feeAmount'', getProp message ''kind'',
        getProp message ''partiallyFillable'',
        getProp message ''sellTokenBalance'',
        getProp message ''buyTokenBalance'']"

definition recoverStructHash :: "obj \<Rightarrow> string" where
  "recoverStructHash message = keccak256 (recoverStructEncoding message)"

definition ourEIP712Hash :: "obj \<Rightarrow> string" where
  "ourEIP712Hash message =
     keccak256 (solidityPacked [''string'', ''bytes32'', ''bytes32'']
       [JStr [CHR 0x19, CHR 0x01], JStr domainSeparator, JStr (recoverStructHash message)])"

text \<open>
  The order of \<^verbatim>\<open>recoverAddressTest\<close> with its three hashed fields given as the strings
  they are the hashes of, and its flag as a boolean: the form in which
  \<^verbatim>\<open>debugEIP712Construction\<close> takes an order.
\<close>

definition recoverMessageAsStrings :: obj where
  "recoverMessageAsStrings =
     [(''sellToken'', JStr ''0xA0b86991c6218b36c1d19D4a2e9Eb0cE3606eB48''),
      (''buyToken'', JStr ''0xdAC17F958D2ee523a2206206994597C13D831ec7''),
      (''receiver'', JStr ''0x0000000000000000000000000000000000000000''),
      (''sellAmount'', JStr ''9077413''),
      (''buyAmount'', JStr ''9061733''),
      (''validTo'', JNum 1758213165),
      (''appData'', JStr ''0x04bc4286b5202cee3733fe058851602586be788e278e88a29baab1f95b77a043''),
      (''feeAmount'', JStr ''922587''),
      (''kind'', JStr ''sell''),
      (''partiallyFillable'', JBool False),
      (''sellTokenBalance'', JStr ''erc20''),
      (''buyTokenBalance'', JStr ''erc20'')]"

text \<open>A list of the length of the rate, to split a block off by recursion on lists.\<close>

definition rateTicks :: "unit list" where
  "rateTicks = replicate 136 ()"

declare absorb.simps [simp del] natBits.simps [simp del]

section \<open>Assignment and lookup\<close>

lemma deadline_plain: "plainKey ''deadline''"
  by (simp add: plainKey_def isArrayIndex_def isDigit_def)

lemma update_absent: "map_of ob k = None \<Longrightarrow> AList.update k v ob = ob @ [(k, v)]"
  by (induction ob) (auto split: if_splits)

lemma assign_plain: "plainKey k \<Longrightarrow> assign k v ob = AList.update k v ob"
  by (simp add: assign_def plainKey_def hasOwn_def update_absent)

lemma insertIndex_fresh:
  "map_of (insertIndex k v ob) = (map_of ob)(k \<mapsto> v)"
  by (induction ob) (auto simp: fun_eq_iff)

lemma map_of_assign:
  "map_of (assign k v ob) = (if k = ''__proto__'' then map_of ob else (map_of ob)(k \<mapsto> v))"
  by (auto simp: assign_def insertIndex_fresh AList.update_conv' fun_eq_iff hasOwn_def map_add_def split: option.splits)

lemma reorderLoop_cong:
  "map_of m1 = map_of m2 \<Longrightarrow> reorderLoop ns m1 acc = reorderLoop ns m2 acc"
  by (induction ns arbitrary: acc) (simp_all add: hasOwn_def getProp_def)


lemma reorderLoop_total:
  "\<not> hasOwn m ''hasOwnProperty'' \<Longrightarrow> \<exists>r. reorderLoop ns m acc = Inr r"
  by (induction ns arbitrary: acc) simp_all


lemma reorderLoop_keys:
  "reorderLoop ns m acc = Inr r \<Longrightarrow> list_all plainKey ns \<Longrightarrow> distinct ns \<Longrightarrow>
     set ns \<inter> fst ` set acc = {} \<Longrightarrow>
     r = acc @ map (\<lambda>n. (n, getProp m n)) (filter (hasOwn m) ns)"
proof (induction ns arbitrary: acc)
  case Nil
  then show ?case by simp
next
  case (Cons n ns)
  show ?case
  proof (cases "hasOwn m n")
    case True
    have absent: "map_of acc n = None"
      using Cons.prems(4) by (auto simp: map_of_eq_None_iff)
    have step: "assign n (getProp m n) acc = acc @ [(n, getProp m n)]"
      using Cons.prems(2) absent by (simp add: assign_plain update_absent)
    have loop: "reorderLoop ns m (acc @ [(n, getProp m n)]) = Inr r"
      using Cons.prems(1) True step by (simp split: if_splits)
    have "r = (acc @ [(n, getProp m n)]) @ map (\<lambda>n. (n, getProp m n)) (filter (hasOwn m) ns)"
      using Cons.prems(2,3,4) by (intro Cons.IH [OF loop]) auto
    then show ?thesis using True by simp
  next
    case False
    have loop: "reorderLoop ns m acc = Inr r"
      using Cons.prems(1) False by (simp split: if_splits)
    have "r = acc @ map (\<lambda>n. (n, getProp m n)) (filter (hasOwn m) ns)"
      using Cons.prems(2,3,4) by (intro Cons.IH [OF loop]) auto
    then show ?thesis using False by simp
  qed
qed

lemma self_image:
  "distinct (map fst m) \<Longrightarrow> map (\<lambda>n. (n, getProp m n)) (filter (hasOwn m) (map fst m)) = m"
proof -
  assume d: "distinct (map fst m)"
  have "\<And>p. p \<in> set m \<Longrightarrow> hasOwn m (fst p) \<and> getProp m (fst p) = snd p"
    using d by (auto simp: hasOwn_def getProp_def)
  then have "map (\<lambda>n. (n, getProp m n)) (filter (hasOwn m) (map fst m)) = map (\<lambda>p. p) m"
    by (simp add: filter_map comp_def cong: map_cong filter_cong)
  then show ?thesis by simp
qed


lemma reorderLoop_self:
  assumes "reorderLoop (map fst m) m [] = Inr r" "distinct (map fst m)"
    "list_all plainKey (map fst m)"
  shows "r = m"
proof -
  have "r = [] @ map (\<lambda>n. (n, getProp m n)) (filter (hasOwn m) (map fst m))"
    using assms by (intro reorderLoop_keys) auto
  then show ?thesis using assms(2) by (simp add: self_image)
qed

lemma checkFieldOrder_primary:
  assumes "findPrimary ts = Some p" "p \<noteq> []"
  shows "checkFieldOrder ts m =
           (case reorderLoop (map name (fieldsOf ts p)) m [] of
              Inl e \<Rightarrow> Inl e
            | Inr reordered \<Rightarrow>
                Inr \<lparr>isOrdered = (map name (fieldsOf ts p) = map fst m),
                     typeOrder = map name (fieldsOf ts p),
                     messageOrder = map fst m, reorderedMessage = reordered,
                     primaryType = Some p\<rparr>)"
  using assms by (simp add: checkFieldOrder_def Let_def)

lemma reconcile_primary:
  assumes "findPrimary ts = Some p" "p \<noteq> []" "distinct (map fst m)"
    "list_all plainKey (map name (fieldsOf ts p))"
  shows "reconcile ts m = reorderLoop (map name (fieldsOf ts p)) m []"
proof (cases "reorderLoop (map name (fieldsOf ts p)) m []")
  case (Inl e)
  then show ?thesis using assms(1,2) by (simp add: reconcile_def checkFieldOrder_primary)
next
  case (Inr r)
  have "r = m" if "map name (fieldsOf ts p) = map fst m"
    using Inr assms(3,4) that by (intro reorderLoop_self) auto
  then show ?thesis
    using Inr assms(1,2) by (auto simp: reconcile_def checkFieldOrder_primary)
qed

lemma perm_same_lookup:
  assumes "distinct (map fst v1)" "mset v2 = mset v1"
  shows "distinct (map fst v2) \<and> map_of v2 = map_of v1"
proof -
  have "mset (map fst v2) = mset (map fst v1)"
    using assms(2) by (metis mset_map)
  then have d: "distinct (map fst v2)"
    using assms(1) by (metis mset_eq_imp_distinct_iff)
  have "set v2 = set v1" using assms(2) by (metis mset_eq_setD)
  then have "map_of v2 = map_of v1"
    using d assms(1) by (simp add: map_of_inject_set)
  then show ?thesis using d by simp
qed

lemma reconcile_perm:
  assumes "distinct (map fst v1)" "mset v2 = mset v1" "findPrimary ts = Some p" "p \<noteq> []"
    "list_all plainKey (map name (fieldsOf ts p))"
  shows "reconcile ts v2 = reconcile ts v1"
proof -
  have l: "distinct (map fst v2)" "map_of v2 = map_of v1"
    using perm_same_lookup [OF assms(1,2)] by simp_all
  show ?thesis
    using assms l by (simp add: reconcile_primary reorderLoop_cong [OF l(2)])
qed

lemmas model_defs =
  signTypedData_def signingDigest_def signedMessage_def reconcile_def checkFieldOrder_def
  findPrimary_def fieldsOf_def hasOwn_def getProp_def assign_def plainKey_def isArrayIndex_def
  isDigit_def decValue_def withDeadline_def declaresDeadline_def effectiveDeadline_def
  generateDeadline_def walletSignTypedData_def verifyTypedData_def failed_def
  signPermit_def permitTypes_def withDefault_def Let_def

lemmas example_defs =
  ideal_def misrecovering_def testKey_def testDomain_def actionTypes_def actionMessage_def
  voteTypes_def personFields_def mailFields_def mailMessage_def testPermit_def

section \<open>Results of signTypedData\<close>

lemma signTypedData_InrD:
  assumes "signTypedData L key domain ts v d now = Inr r"
  shows "\<exists>v1 h. reconcile ts v = Inr v1
           \<and> messageWithDeadline r = withDeadline ts v1 (effectiveDeadline d now)
           \<and> deadline r = effectiveDeadline d now
           \<and> hashTypedData L domain ts (messageWithDeadline r) = Inr h
           \<and> signature r = signDigest L key h
           \<and> recoverAddress L h (signature r) = Inr (recoveredAddress r)
           \<and> signer r = walletAddress L key"
  using assms
  by (auto simp: signTypedData_def signedMessage_def walletSignTypedData_def
        verifyTypedData_def Let_def split: sum.splits)

lemma withDeadline_lookup:
  "map_of (withDeadline ts v d) k =
     (if declaresDeadline ts \<and> k = ''deadline'' then Some d else map_of v k)"
  by (simp add: withDeadline_def map_of_assign)


section \<open>Self-verification (C1)\<close>

text \<open>
  C1, as amended. \<^verbatim>\<open>signTypedData\<close> recovers an address from the signed tree and the
  signature and returns it beside the wallet's address; it does not compare the two, and
  no error is raised on a mismatch.

  First, every returned result has \<open>signer\<close> equal to the wallet's address, \<open>signature\<close>
  the library's signature of the tree in \<open>messageWithDeadline\<close>, and \<open>recoveredAddress\<close>
  the library's recovery from that tree and signature; the two addresses agree whenever
  the library recovers the wallet's address from the wallet's own signature of the digest.

  Second, a result is returned whatever the recovered address is: when the value tree is
  prepared, the library hashes it and the recovery from the wallet's signature answers
  any address \<open>a\<close>, equal to the wallet's address or not, \<^verbatim>\<open>signTypedData\<close> returns the
  result that carries \<open>a\<close> as \<open>recoveredAddress\<close>.
\<close>

theorem signTypedData_returns_unchecked_recovery:
  "(signTypedData L key domain ts v d now = Inr r \<longrightarrow>
       signer r = walletAddress L key
       \<and> walletSignTypedData L key domain ts (messageWithDeadline r) = Inr (signature r)
       \<and> verifyTypedData L domain ts (messageWithDeadline r) (signature r)
           = Inr (recoveredAddress r)
       \<and> ((\<forall>h. hashTypedData L domain ts (messageWithDeadline r) = Inr h \<longrightarrow>
               recoverAddress L h (signDigest L key h) = Inr (walletAddress L key))
            \<longrightarrow> recoveredAddress r = signer r))
   \<and> (signedMessage ts v d now = Inr (d1, m) \<and> hashTypedData L domain ts m = Inr h
        \<and> recoverAddress L h (signDigest L key h) = Inr a \<longrightarrow>
       signTypedData L key domain ts v d now =
         Inr \<lparr>signature = signDigest L key h, deadline = d1, recoveredAddress = a,
              messageWithDeadline = m, signer = walletAddress L key\<rparr>)"
proof -
  have returned:
    "signer r = walletAddress L key
       \<and> walletSignTypedData L key domain ts (messageWithDeadline r) = Inr (signature r)
       \<and> verifyTypedData L domain ts (messageWithDeadline r) (signature r)
           = Inr (recoveredAddress r)
       \<and> ((\<forall>h. hashTypedData L domain ts (messageWithDeadline r) = Inr h \<longrightarrow>
               recoverAddress L h (signDigest L key h) = Inr (walletAddress L key))
            \<longrightarrow> recoveredAddress r = signer r)"
    if run: "signTypedData L key domain ts v d now = Inr r"
    using signTypedData_InrD [OF run]
    by (auto simp: walletSignTypedData_def verifyTypedData_def)
  have anyAddress:
    "signTypedData L key domain ts v d now =
         Inr \<lparr>signature = signDigest L key h, deadline = d1, recoveredAddress = a,
              messageWithDeadline = m, signer = walletAddress L key\<rparr>"
    if steps: "signedMessage ts v d now = Inr (d1, m)" "hashTypedData L domain ts m = Inr h"
      "recoverAddress L h (signDigest L key h) = Inr a"
    using steps by (simp add: signTypedData_def walletSignTypedData_def verifyTypedData_def)
  show ?thesis using returned anyAddress by blast
qed

text \<open>
  The theorem at the deadline test of the repository: on the ideal library the two
  addresses agree, and on the library whose recovery answers the zero address the result
  is returned with the zero address in it.
\<close>

theorem signTypedData_returns_unchecked_recovery_witness:
  "map_sum id recoveredAddress
     (signTypedData ideal testKey testDomain actionTypes actionMessage (JNum 1700000000) 0)
     = Inr (walletAddress ideal testKey)
   \<and> map_sum id signer
     (signTypedData ideal testKey testDomain actionTypes actionMessage (JNum 1700000000) 0)
     = Inr (walletAddress ideal testKey)
   \<and> signTypedData misrecovering testKey testDomain actionTypes actionMessage (JNum 1700000000) 0
     = Inr \<lparr>signature =
              signDigest misrecovering testKey
                (testDomain, actionTypes, actionMessage @ [(''deadline'', JNum 1700000000)]),
            deadline = JNum 1700000000,
            recoveredAddress = ''0x0000000000000000000000000000000000000000'',
            messageWithDeadline = actionMessage @ [(''deadline'', JNum 1700000000)],
            signer = walletAddress misrecovering testKey\<rparr>"
proof -
  obtain r where run:
    "signTypedData ideal testKey testDomain actionTypes actionMessage (JNum 1700000000) 0 = Inr r"
    by (simp add: model_defs example_defs)
  have roundtrip:
    "\<forall>h. hashTypedData ideal testDomain actionTypes (messageWithDeadline r) = Inr h \<longrightarrow>
       recoverAddress ideal h (signDigest ideal testKey h) = Inr (walletAddress ideal testKey)"
    by (simp add: ideal_def)
  from signTypedData_returns_unchecked_recovery
         [of ideal testKey testDomain actionTypes actionMessage "JNum 1700000000" 0 r]
       run roundtrip
  have agree: "signer r = walletAddress ideal testKey" "recoveredAddress r = signer r"
    by blast+
  have prepared:
    "signedMessage actionTypes actionMessage (JNum 1700000000) 0
       = Inr (JNum 1700000000, actionMessage @ [(''deadline'', JNum 1700000000)])"
    by (simp add: model_defs example_defs)
  have hashed:
    "hashTypedData misrecovering testDomain actionTypes
        (actionMessage @ [(''deadline'', JNum 1700000000)])
       = Inr (testDomain, actionTypes, actionMessage @ [(''deadline'', JNum 1700000000)])"
    by (simp add: misrecovering_def ideal_def)
  have recovered:
    "recoverAddress misrecovering
        (testDomain, actionTypes, actionMessage @ [(''deadline'', JNum 1700000000)])
        (signDigest misrecovering testKey
           (testDomain, actionTypes, actionMessage @ [(''deadline'', JNum 1700000000)]))
       = Inr ''0x0000000000000000000000000000000000000000''"
    by (simp add: misrecovering_def)
  from signTypedData_returns_unchecked_recovery
         [of misrecovering testKey testDomain actionTypes actionMessage "JNum 1700000000" 0 _
             "JNum 1700000000" "actionMessage @ [(''deadline'', JNum 1700000000)]"
             "(testDomain, actionTypes, actionMessage @ [(''deadline'', JNum 1700000000)])"
             "''0x0000000000000000000000000000000000000000''"]
       prepared hashed recovered
  have mismatch:
    "signTypedData misrecovering testKey testDomain actionTypes actionMessage (JNum 1700000000) 0
     = Inr \<lparr>signature =
              signDigest misrecovering testKey
                (testDomain, actionTypes, actionMessage @ [(''deadline'', JNum 1700000000)]),
            deadline = JNum 1700000000,
            recoveredAddress = ''0x0000000000000000000000000000000000000000'',
            messageWithDeadline = actionMessage @ [(''deadline'', JNum 1700000000)],
            signer = walletAddress misrecovering testKey\<rparr>"
    by blast
  show ?thesis using agree run mismatch by simp
qed

text \<open>
  With a library whose recovery answers another address, \<^verbatim>\<open>signTypedData\<close> still returns
  a result: the recovered address and the signer differ, and nothing is thrown.
\<close>

theorem signTypedData_no_consistency_check:
  "map_sum id recoveredAddress
     (signTypedData misrecovering testKey testDomain actionTypes actionMessage (JNum 1700000000) 0)
     = Inr ''0x0000000000000000000000000000000000000000''
   \<and> map_sum id signer
     (signTypedData misrecovering testKey testDomain actionTypes actionMessage (JNum 1700000000) 0)
     = Inr ''address of 0x1137a988850a48f6079308dad260bcab640a19af78852b2407fc3d1debe582d0''
   \<and> map_sum id recoveredAddress
     (signTypedData misrecovering testKey testDomain actionTypes actionMessage (JNum 1700000000) 0)
     \<noteq> map_sum id signer
     (signTypedData misrecovering testKey testDomain actionTypes actionMessage (JNum 1700000000) 0)"
  by (simp add: model_defs example_defs)

section \<open>Deadline injection (C2, C6)\<close>

text \<open>
  C2, as amended. In every returned result the signed tree has \<^verbatim>\<open>deadline\<close> set to the
  deadline of the call (the argument when truthy, else the generated one) exactly when
  the type found by the search declares a field named \<^verbatim>\<open>deadline\<close>, whether or not the
  caller's tree already had that key; every other key is as in the reconciled tree. When
  the type declares no such field, the signed tree is the reconciled tree, unchanged.
\<close>

theorem deadline_written_when_declared:
  assumes "signTypedData L key domain ts v d now = Inr r"
  shows "\<exists>v1. reconcile ts v = Inr v1
           \<and> (declaresDeadline ts \<longrightarrow>
                 map_of (messageWithDeadline r) ''deadline'' = Some (effectiveDeadline d now)
                 \<and> (\<forall>k. k \<noteq> ''deadline'' \<longrightarrow> map_of (messageWithDeadline r) k = map_of v1 k))
           \<and> (\<not> declaresDeadline ts \<longrightarrow> messageWithDeadline r = v1)"
  using signTypedData_InrD [OF assms]
  by (auto simp: withDeadline_lookup) (simp add: withDeadline_def)

text \<open>The theorem on a type that declares the field and on one that does not.\<close>

theorem deadline_written_when_declared_witness:
  "declaresDeadline actionTypes
   \<and> map_sum id (\<lambda>r. map_of (messageWithDeadline r) ''deadline'')
       (signTypedData ideal testKey testDomain actionTypes actionMessage (JNum 1700000000) 0)
     = Inr (Some (JNum 1700000000))
   \<and> \<not> declaresDeadline voteTypes
   \<and> map_sum id messageWithDeadline
       (signTypedData ideal testKey testDomain voteTypes
          [(''proposal'', JNum 1), (''support'', JBool True)] (JNum 1700000000) 0)
     = reconcile voteTypes [(''proposal'', JNum 1), (''support'', JBool True)]"
proof -
  obtain r where run:
    "signTypedData ideal testKey testDomain actionTypes actionMessage (JNum 1700000000) 0 = Inr r"
    by (simp add: model_defs example_defs)
  obtain r' where run':
    "signTypedData ideal testKey testDomain voteTypes
       [(''proposal'', JNum 1), (''support'', JBool True)] (JNum 1700000000) 0 = Inr r'"
    by (simp add: model_defs example_defs)
  have decl: "declaresDeadline actionTypes" "\<not> declaresDeadline voteTypes"
    by (simp_all add: model_defs example_defs)
  have eff: "effectiveDeadline (JNum 1700000000) 0 = JNum 1700000000"
    by (simp add: effectiveDeadline_def)
  from deadline_written_when_declared [OF run] decl(1) eff
  have a: "map_of (messageWithDeadline r) ''deadline'' = Some (JNum 1700000000)"
    by auto
  from deadline_written_when_declared [OF run'] decl(2)
  have b: "reconcile voteTypes [(''proposal'', JNum 1), (''support'', JBool True)]
             = Inr (messageWithDeadline r')"
    by auto
  show ?thesis using a b decl run run' by simp
qed

text \<open>
  A deadline the caller put into the tree does not survive: with no deadline argument,
  the tree's 1700000000 is replaced by the generated value.
\<close>

theorem supplied_deadline_overwritten:
  "map_sum id messageWithDeadline
     (signTypedData ideal testKey testDomain actionTypes
        (actionMessage @ [(''deadline'', JNum 1700000000)]) JNull 1758213165000)
     = Inr (actionMessage @ [(''deadline'', JNum 1758216765)])"
  by (simp add: model_defs example_defs)

text \<open>
  C6. When the type declares \<^verbatim>\<open>deadline\<close> and no deadline argument is passed, the deadline
  in the signed tree is the clock reading in whole seconds plus 3600.
\<close>

theorem generated_deadline_value:
  assumes "declaresDeadline ts" "d = JNull \<or> d = JUndefined"
    "signTypedData L key domain ts v d now = Inr r"
  shows "map_of (messageWithDeadline r) ''deadline'' = Some (JNum (int (now div 1000) + 3600))
       \<and> deadline r = JNum (int (now div 1000) + 3600)"
  using signTypedData_InrD [OF assms(3)] assms(1,2)
  by (auto simp: withDeadline_lookup effectiveDeadline_def generateDeadline_def)

text \<open>The theorem at a clock reading of 1758213165123 ms.\<close>

theorem generated_deadline_value_witness:
  "map_sum id (\<lambda>r. map_of (messageWithDeadline r) ''deadline'')
     (signTypedData ideal testKey testDomain actionTypes actionMessage JNull 1758213165123)
     = Inr (Some (JNum 1758216765))"
proof -
  obtain r where run:
    "signTypedData ideal testKey testDomain actionTypes actionMessage JNull 1758213165123 = Inr r"
    by (simp add: model_defs example_defs)
  have decl: "declaresDeadline actionTypes"
    by (simp add: model_defs example_defs)
  have "map_of (messageWithDeadline r) ''deadline''
          = Some (JNum (int (1758213165123 div 1000) + 3600))"
    using generated_deadline_value [OF decl _ run] by simp
  then show ?thesis using run by simp
qed

section \<open>Determinism (C5)\<close>

text \<open>
  C5, as amended. Two calls with the same arguments return the same result and sign the
  same digest whenever the deadline argument is truthy, or the two clock readings fall
  into the same second: the clock enters only through the generated deadline. A deadline
  argument of 0 is falsy and does not fix the deadline.
\<close>

theorem signing_reproducible:
  assumes "\<not> falsy d \<or> now1 div 1000 = now2 div 1000"
  shows "signTypedData L key domain ts v d now1 = signTypedData L key domain ts v d now2
       \<and> signingDigest L domain ts v d now1 = signingDigest L domain ts v d now2"
proof -
  have "effectiveDeadline d now1 = effectiveDeadline d now2"
    using assms by (auto simp: effectiveDeadline_def generateDeadline_def)
  then have "signedMessage ts v d now1 = signedMessage ts v d now2"
    by (cases "reconcile ts v") (simp_all add: signedMessage_def Let_def)
  then show ?thesis
    by (simp add: signTypedData_def signingDigest_def)
qed

text \<open>The theorem at two clock readings far apart, with the deadline fixed.\<close>

theorem signing_reproducible_witness:
  "signTypedData ideal testKey testDomain actionTypes actionMessage (JNum 1700000000) 1700000000000
     = signTypedData ideal testKey testDomain actionTypes actionMessage (JNum 1700000000) 1800000000000
   \<and> signingDigest ideal testDomain actionTypes actionMessage (JNum 1700000000) 1700000000000
     = Inr (testDomain, actionTypes, actionMessage @ [(''deadline'', JNum 1700000000)])
   \<and> signingDigest ideal testDomain actionTypes actionMessage (JNum 1700000000) 1800000000000
     = Inr (testDomain, actionTypes, actionMessage @ [(''deadline'', JNum 1700000000)])"
proof -
  have truthy: "\<not> falsy (JNum 1700000000) \<or> (1700000000000::nat) div 1000 = 1800000000000 div 1000"
    by simp
  have d1: "signingDigest ideal testDomain actionTypes actionMessage (JNum 1700000000) 1700000000000
     = Inr (testDomain, actionTypes, actionMessage @ [(''deadline'', JNum 1700000000)])"
    by (simp add: model_defs example_defs)
  show ?thesis
    using signing_reproducible [OF truthy, of ideal testKey testDomain actionTypes actionMessage] d1 by simp
qed

text \<open>
  With the explicit deadline 0, two calls one second apart sign different trees: on the
  ideal library the digests and the signatures differ.
\<close>

theorem zero_deadline_not_reproducible:
  "signingDigest ideal testDomain actionTypes actionMessage (JNum 0) 1700000000000
     \<noteq> signingDigest ideal testDomain actionTypes actionMessage (JNum 0) 1700000001000
   \<and> map_sum id signature
        (signTypedData ideal testKey testDomain actionTypes actionMessage (JNum 0) 1700000000000)
     \<noteq> map_sum id signature
        (signTypedData ideal testKey testDomain actionTypes actionMessage (JNum 0) 1700000001000)"
  by (simp add: model_defs example_defs)

section \<open>The primary type and the reordered message (C10, C3, C7)\<close>






lemma checkFieldOrder_reordered:
  assumes "findPrimary ts = Some p" "p \<noteq> []" "\<not> hasOwn m ''hasOwnProperty''"
    "list_all plainKey (map name (fieldsOf ts p))" "distinct (map name (fieldsOf ts p))"
  shows "map_sum id reorderedMessage (checkFieldOrder ts m)
           = Inr (map (\<lambda>n. (n, getProp m n)) (filter (hasOwn m) (map name (fieldsOf ts p))))"
proof -
  obtain r where loop: "reorderLoop (map name (fieldsOf ts p)) m [] = Inr r"
    using reorderLoop_total [OF assms(3)] by blast
  have "r = [] @ map (\<lambda>n. (n, getProp m n)) (filter (hasOwn m) (map name (fieldsOf ts p)))"
    using loop assms(4,5) by (intro reorderLoop_keys) auto
  then show ?thesis using assms(1,2) loop by (simp add: checkFieldOrder_primary)
qed




text \<open>
  The order of the keys is immaterial when the names the primary type declares are
  ordinary keys: for a table with a primary type of a non-empty name, two value trees
  that are permutations of the same key-value pairs are signed identically.
\<close>

lemma plain_names_order_invariance:
  assumes "distinct (map fst v1)" "mset v2 = mset v1" "findPrimary ts = Some p" "p \<noteq> []"
    "list_all plainKey (map name (fieldsOf ts p))"
  shows "signingDigest L domain ts v2 d now = signingDigest L domain ts v1 d now
       \<and> signTypedData L key domain ts v2 d now = signTypedData L key domain ts v1 d now"
  by (simp add: signingDigest_def signTypedData_def signedMessage_def reconcile_perm [OF assms])

text \<open>On the vote of the command-line example, supplied in both key orders.\<close>

lemma vote_order_invariance:
  "signingDigest ideal testDomain voteTypes
      [(''support'', JBool True), (''proposal'', JNum 1)] (JNum 1700000000) 0
     = signingDigest ideal testDomain voteTypes
         [(''proposal'', JNum 1), (''support'', JBool True)] (JNum 1700000000) 0
   \<and> signingDigest ideal testDomain voteTypes
      [(''proposal'', JNum 1), (''support'', JBool True)] (JNum 1700000000) 0
     = Inr (testDomain, voteTypes, [(''proposal'', JNum 1), (''support'', JBool True)])"
proof -
  have hyps: "distinct (map fst [(''proposal'', JNum 1), (''support'', JBool True)])"
    "mset [(''support'', JBool True), (''proposal'', JNum 1)]
       = mset [(''proposal'', JNum 1), (''support'', JBool True)]"
    "findPrimary voteTypes = Some ''Vote''" "''Vote'' \<noteq> []"
    "list_all plainKey (map name (fieldsOf voteTypes ''Vote''))"
    by (simp_all add: model_defs example_defs)
  have run: "signingDigest ideal testDomain voteTypes
      [(''proposal'', JNum 1), (''support'', JBool True)] (JNum 1700000000) 0
     = Inr (testDomain, voteTypes, [(''proposal'', JNum 1), (''support'', JBool True)])"
    by (simp add: model_defs example_defs)
  show ?thesis
    using plain_names_order_invariance [OF hyps, of ideal testDomain "JNum 1700000000" 0] run
    by simp
qed


text \<open>
  C7. An undeclared key named \<^verbatim>\<open>hasOwnProperty\<close> is not dropped silently: the loop calls
  \<^verbatim>\<open>message.hasOwnProperty\<close>, which is then the key's value, and the signing attempt fails
  for every library, key, domain, deadline and clock reading.
\<close>

theorem hasOwnProperty_key_breaks_signing:
  "signTypedData L key domain voteTypes
     [(''proposal'', JNum 1), (''support'', JBool True), (''hasOwnProperty'', JNum 1)] d now
   = Inl ''Failed to sign typed data: message.hasOwnProperty is not a function''"
  by (simp add: model_defs example_defs)

section \<open>Permits (C8)\<close>

lemma signPermit_delegates:
  assumes "getAddress L (getProp pd ''verifyingContract'') = Inr contract"
    "getAddress L (getProp pd ''spender'') = Inr spenderAddress"
    "if falsy (getProp pd ''owner'') then ownerAddress = walletAddress L key
     else getAddress L (getProp pd ''owner'') = Inr ownerAddress"
    "dl = (if falsy (getProp pd ''deadline'') then JNum (generateDeadline now 3600)
           else getProp pd ''deadline'')"
  shows "signPermit L key pd now =
           signTypedData L key
             [(''name'', getProp pd ''tokenName''),
              (''version'', withDefault (getProp pd ''tokenVersion'') (JStr ''1'')),
              (''chainId'', getProp pd ''chainId''),
              (''verifyingContract'', JStr contract)]
             permitTypes
             [(''owner'', JStr ownerAddress), (''spender'', JStr spenderAddress),
              (''value'', getProp pd ''value''), (''nonce'', getProp pd ''nonce''),
              (''deadline'', dl)]
             dl now"
proof -
  have dl: "dl = (if falsy (withDefault (getProp pd ''deadline'') JNull)
                  then JNum (generateDeadline now 3600)
                  else withDefault (getProp pd ''deadline'') JNull)"
    using assms(4) by (cases "getProp pd ''deadline'' = JUndefined") (simp_all add: withDefault_def)
  show ?thesis
    using assms(1,2,3) unfolding signPermit_def Let_def dl
    by (simp add: getProp_def split: if_splits)
qed

lemma permit_primary:
  "findPrimary permitTypes = Some ''Permit''"
  "map name (fieldsOf permitTypes ''Permit'') = [''owner'', ''spender'', ''value'', ''nonce'', ''deadline'']"
  "declaresDeadline permitTypes"
  by (simp_all add: findPrimary_def permitTypes_def fieldsOf_def declaresDeadline_def)

lemma permit_loop:
  "reorderLoop [''owner'', ''spender'', ''value'', ''nonce'', ''deadline'']
       [(''owner'', a), (''spender'', b), (''value'', c), (''nonce'', e), (''deadline'', dl)] []
     = Inr [(''owner'', a), (''spender'', b), (''value'', c), (''nonce'', e), (''deadline'', dl)]"
  by (simp add: hasOwn_def getProp_def assign_def isArrayIndex_def isDigit_def)

lemma permit_reconcile:
  "reconcile permitTypes
       [(''owner'', a), (''spender'', b), (''value'', c), (''nonce'', e), (''deadline'', dl)]
     = Inr [(''owner'', a), (''spender'', b), (''value'', c), (''nonce'', e), (''deadline'', dl)]"
  by (simp add: reconcile_def checkFieldOrder_primary [OF permit_primary(1)] permit_primary(2)
        hasOwn_def getProp_def assign_def isArrayIndex_def isDigit_def)

lemma permit_signedMessage:
  "\<not> falsy dl \<Longrightarrow>
     signedMessage permitTypes
       [(''owner'', a), (''spender'', b), (''value'', c), (''nonce'', e), (''deadline'', dl)] dl now
     = Inr (dl, [(''owner'', a), (''spender'', b), (''value'', c), (''nonce'', e), (''deadline'', dl)])"
  by (simp add: signedMessage_def permit_reconcile withDeadline_def permit_primary(3)
        effectiveDeadline_def assign_def hasOwn_def)


lemma ideal_hash: "hashTypedData ideal d t v = Inr (d, t, v)"
  by (simp add: ideal_def)

lemma ideal_roundtrip:
  "recoverAddress ideal h (signDigest ideal k h) = Inr (walletAddress ideal k)"
  by (simp add: ideal_def)

text \<open>
  C8. When the three calls of \<^verbatim>\<open>getAddress\<close> succeed, \<^verbatim>\<open>signPermit\<close> is \<^verbatim>\<open>signTypedData\<close> on
  the permit domain, the five-field \<^verbatim>\<open>Permit\<close> type and the constructed message, with the
  message's deadline as the deadline argument; the owner is the wallet's address when
  \<^verbatim>\<open>permitData.owner\<close> is absent (falsy), and the version is \<^verbatim>\<open>'1'\<close> when absent.
\<close>

theorem signPermit_builds_permit:
  assumes "getAddress L (getProp pd ''verifyingContract'') = Inr contract"
    "getAddress L (getProp pd ''spender'') = Inr spenderAddress"
    "if falsy (getProp pd ''owner'') then ownerAddress = walletAddress L key
     else getAddress L (getProp pd ''owner'') = Inr ownerAddress"
    "dl = (if falsy (getProp pd ''deadline'') then JNum (generateDeadline now 3600)
           else getProp pd ''deadline'')"
  shows "signPermit L key pd now =
           signTypedData L key
             [(''name'', getProp pd ''tokenName''),
              (''version'', if getProp pd ''tokenVersion'' = JUndefined then JStr ''1''
                            else getProp pd ''tokenVersion''),
              (''chainId'', getProp pd ''chainId''),
              (''verifyingContract'', JStr contract)]
             [(''Permit'',
               [\<lparr>name = ''owner'', type = ''address''\<rparr>,
                \<lparr>name = ''spender'', type = ''address''\<rparr>,
                \<lparr>name = ''value'', type = ''uint256''\<rparr>,
                \<lparr>name = ''nonce'', type = ''uint256''\<rparr>,
                \<lparr>name = ''deadline'', type = ''uint256''\<rparr>])]
             [(''owner'', JStr ownerAddress), (''spender'', JStr spenderAddress),
              (''value'', getProp pd ''value''), (''nonce'', getProp pd ''nonce''),
              (''deadline'', dl)]
             dl now"
  using signPermit_delegates [OF assms] by (simp add: permitTypes_def withDefault_def)

text \<open>The theorem on the permit of the test script.\<close>

theorem signPermit_builds_permit_witness:
  "signPermit ideal testKey testPermit 1758213165123 =
     signTypedData ideal testKey
       [(''name'', JStr ''Test Token''), (''version'', JStr ''1''), (''chainId'', JNum 1),
        (''verifyingContract'', JStr ''0xA0b86a33E6441e3a8b06dd2BC5BF6ef5C0aA2CB0'')]
       permitTypes
       [(''owner'', JStr (walletAddress ideal testKey)),
        (''spender'', JStr ''0x7a250d5630B4cF539739dF2C5dAcb4c659F2488D''),
        (''value'', JStr ''1000000000000000000''), (''nonce'', JNum 0),
        (''deadline'', JNum 1758216765)]
       (JNum 1758216765) 1758213165123
   \<and> map_sum id messageWithDeadline (signPermit ideal testKey testPermit 1758213165123) =
       Inr [(''owner'', JStr (walletAddress ideal testKey)),
            (''spender'', JStr ''0x7a250d5630B4cF539739dF2C5dAcb4c659F2488D''),
            (''value'', JStr ''1000000000000000000''), (''nonce'', JNum 0),
            (''deadline'', JNum 1758216765)]"
proof -
  have contract: "getAddress ideal (getProp testPermit ''verifyingContract'')
                    = Inr ''0xA0b86a33E6441e3a8b06dd2BC5BF6ef5C0aA2CB0''"
    and spender: "getAddress ideal (getProp testPermit ''spender'')
                    = Inr ''0x7a250d5630B4cF539739dF2C5dAcb4c659F2488D''"
    and owner: "if falsy (getProp testPermit ''owner'')
                then walletAddress ideal testKey = walletAddress ideal testKey
                else getAddress ideal (getProp testPermit ''owner'')
                       = Inr (walletAddress ideal testKey)"
    and dl: "JNum 1758216765 =
               (if falsy (getProp testPermit ''deadline'')
                then JNum (generateDeadline 1758213165123 3600)
                else getProp testPermit ''deadline'')"
    by (simp_all add: getProp_def testPermit_def ideal_def generateDeadline_def)
  have vals: "getProp testPermit ''tokenName'' = JStr ''Test Token''"
    "getProp testPermit ''tokenVersion'' = JUndefined"
    "getProp testPermit ''chainId'' = JNum 1"
    "getProp testPermit ''value'' = JStr ''1000000000000000000''"
    "getProp testPermit ''nonce'' = JNum 0"
    by (simp_all add: getProp_def testPermit_def)
  have delegated: "signPermit ideal testKey testPermit 1758213165123 =
     signTypedData ideal testKey
       [(''name'', JStr ''Test Token''), (''version'', JStr ''1''), (''chainId'', JNum 1),
        (''verifyingContract'', JStr ''0xA0b86a33E6441e3a8b06dd2BC5BF6ef5C0aA2CB0'')]
       permitTypes
       [(''owner'', JStr (walletAddress ideal testKey)),
        (''spender'', JStr ''0x7a250d5630B4cF539739dF2C5dAcb4c659F2488D''),
        (''value'', JStr ''1000000000000000000''), (''nonce'', JNum 0),
        (''deadline'', JNum 1758216765)]
       (JNum 1758216765) 1758213165123"
    using signPermit_builds_permit [OF contract spender owner dl] vals by (simp add: permitTypes_def)
  have signed: "signedMessage permitTypes
       [(''owner'', JStr (walletAddress ideal testKey)),
        (''spender'', JStr ''0x7a250d5630B4cF539739dF2C5dAcb4c659F2488D''),
        (''value'', JStr ''1000000000000000000''), (''nonce'', JNum 0),
        (''deadline'', JNum 1758216765)]
       (JNum 1758216765) 1758213165123
     = Inr (JNum 1758216765,
       [(''owner'', JStr (walletAddress ideal testKey)),
        (''spender'', JStr ''0x7a250d5630B4cF539739dF2C5dAcb4c659F2488D''),
        (''value'', JStr ''1000000000000000000''), (''nonce'', JNum 0),
        (''deadline'', JNum 1758216765)])"
    by (intro permit_signedMessage) simp
  show ?thesis
    unfolding delegated
    by (simp add: signTypedData_def signed walletSignTypedData_def verifyTypedData_def ideal_hash ideal_roundtrip)
qed

section \<open>Falsy deadlines (C9)\<close>



section \<open>Evaluating Keccak-256\<close>

text \<open>
  The equations below let the simplifier run the permutation and the sponge on explicit
  bytes: rotations and block splitting by recursion on lists, numerals bit by bit.
\<close>

lemma takeT_take: "takeT t xs = take (length t) xs"
  by (induction t xs rule: takeT.induct) simp_all

lemma dropT_drop: "dropT t xs = drop (length t) xs"
  by (induction t xs rule: dropT.induct) simp_all

lemma chiBit_table:
  "chiBit False False False = False" "chiBit False False True = True"
  "chiBit False True False = False" "chiBit False True True = False"
  "chiBit True False False = True" "chiBit True False True = False"
  "chiBit True True False = True" "chiBit True True True = True"
  by (simp_all add: chiBit_def)

lemma rotl_template: "length t = 64 - n \<Longrightarrow> rotl n l = rotT t l"
  by (simp add: rotl_def rotT_def takeT_take dropT_drop)

lemma rotl_eval:
  "rotl 0 l = rotT
     [(), (), (), (), (), (), (), (), (), (), (), (), (), (), (), (), (), (), (), (), (), (), (),
     (), (), (), (), (), (), (), (), (), (), (), (), (), (), (), (), (), (), (), (), (), (), (),
     (), (), (), (), (), (), (), (), (), (), (), (), (), (), (), (), (), ()] l"
  "rotl 1 l = rotT
     [(), (), (), (), (), (), (), (), (), (), (), (), (), (), (), (), (), (), (), (), (), (), (),
     (), (), (), (), (), (), (), (), (), (), (), (), (), (), (), (), (), (), (), (), (), (), (),
     (), (), (), (), (), (), (), (), (), (), (), (), (), (), (), (), ()] l"
  "rotl 2 l = rotT
     [(), (), (), (), (), (), (), (), (), (), (), (), (), (), (), (), (), (), (), (), (), (), (),
     (), (), (), (), (), (), (), (), (), (), (), (), (), (), (), (), (), (), (), (), (), (), (),
     (), (), (), (), (), (), (), (), (), (), (), (), (), (), (), ()] l"
  "rotl 3 l = rotT
     [(), (), (), (), (), (), (), (), (), (), (), (), (), (), (), (), (), (), (), (), (), (), (),
     (), (), (), (), (), (), (), (), (), (), (), (), (), (), (), (), (), (), (), (), (), (), (),
     (), (), (), (), (), (), (), (), (), (), (), (), (), (), ()] l"
  "rotl 6 l = rotT
     [(), (), (), (), (), (), (), (), (), (), (), (), (), (), (), (), (), (), (), (), (), (), (),
     (), (), (), (), (), (), (), (), (), (), (), (), (), (), (), (), (), (), (), (), (), (), (),
     (), (), (), (), (), (), (), (), (), (), (), ()] l"
  "rotl 8 l = rotT
     [(), (), (), (), (), (), (), (), (), (), (), (), (), (), (), (), (), (), (), (), (), (), (),
     (), (), (), (), (), (), (), (), (), (), (), (), (), (), (), (), (), (), (), (), (), (), (),
     (), (), (), (), (), (), (), (), (), ()] l"
  "rotl 10 l = rotT
     [(), (), (), (), (), (), (), (), (), (), (), (), (), (), (), (), (), (), (), (), (), (), (),
     (), (), (), (), (), (), (), (), (), (), (), (), (), (), (), (), (), (), (), (), (), (), (),
     (), (), (), (), (), (), (), ()] l"
  "rotl 14 l = rotT
     [(), (), (), (), (), (), (), (), (), (), (), (), (), (), (), (), (), (), (), (), (), (), (),
     (), (), (), (), (), (), (), (), (), (), (), (), (), (), (), (), (), (), (), (), (), (), (),
     (), (), (), ()] l"
  "rotl 15 l = rotT
     [(), (), (), (), (), (), (), (), (), (), (), (), (), (), (), (), (), (), (), (), (), (), (),
     (), (), (), (), (), (), (), (), (), (), (), (), (), (), (), (), (), (), (), (), (), (), (),
     (), (), ()] l"
  "rotl 18 l = rotT
     [(), (), (), (), (), (), (), (), (), (), (), (), (), (), (), (), (), (), (), (), (), (), (),
     (), (), (), (), (), (), (), (), (), (), (), (), (), (), (), (), (), (), (), (), (), (), ()] l"
  "rotl 20 l = rotT
     [(), (), (), (), (), (), (), (), (), (), (), (), (), (), (), (), (), (), (), (), (), (), (),
     (), (), (), (), (), (), (), (), (), (), (), (), (), (), (), (), (), (), (), (), ()] l"
  "rotl 21 l = rotT
     [(), (), (), (), (), (), (), (), (), (), (), (), (), (), (), (), (), (), (), (), (), (), (),
     (), (), (), (), (), (), (), (), (), (), (), (), (), (), (), (), (), (), (), ()] l"
  "rotl 25 l = rotT
     [(), (), (), (), (), (), (), (), (), (), (), (), (), (), (), (), (), (), (), (), (), (), (),
     (), (), (), (), (), (), (), (), (), (), (), (), (), (), (), ()] l"
  "rotl 27 l = rotT
     [(), (), (), (), (), (), (), (), (), (), (), (), (), (), (), (), (), (), (), (), (), (), (),
     (), (), (), (), (), (), (), (), (), (), (), (), (), ()] l"
  "rotl 28 l = rotT
     [(), (), (), (), (), (), (), (), (), (), (), (), (), (), (), (), (), (), (), (), (), (), (),
     (), (), (), (), (), (), (), (), (), (), (), (), ()] l"
  "rotl 36 l = rotT
     [(), (), (), (), (), (), (), (), (), (), (), (), (), (), (), (), (), (), (), (), (), (), (),
     (), (), (), (), ()] l"
  "rotl 39 l = rotT
     [(), (), (), (), (), (), (), (), (), (), (), (), (), (), (), (), (), (), (), (), (), (), (),
     (), ()] l"
  "rotl 41 l = rotT
     [(), (), (), (), (), (), (), (), (), (), (), (), (), (), (), (), (), (), (), (), (), (),
     ()] l"
  "rotl 43 l = rotT
     [(), (), (), (), (), (), (), (), (), (), (), (), (), (), (), (), (), (), (), (), ()] l"
  "rotl 44 l = rotT
     [(), (), (), (), (), (), (), (), (), (), (), (), (), (), (), (), (), (), (), ()] l"
  "rotl 45 l = rotT
     [(), (), (), (), (), (), (), (), (), (), (), (), (), (), (), (), (), (), ()] l"
  "rotl 55 l = rotT
     [(), (), (), (), (), (), (), (), ()] l"
  "rotl 56 l = rotT
     [(), (), (), (), (), (), (), ()] l"
  "rotl 61 l = rotT
     [(), (), ()] l"
  "rotl 62 l = rotT
     [(), ()] l"
  by (rule rotl_template, simp)+

lemma replicate_numeral: "replicate (numeral k) x = x # replicate (pred_numeral k) x"
  by (simp add: numeral_eq_Suc)

lemma absorb_step:
  "absorb a bs =
     (if bs = [] then a
      else absorb (keccakF (xorInto (lanesOf (takeT rateTicks bs)) a)) (dropT rateTicks bs))"
  by (subst absorb.simps) (simp add: takeT_take dropT_drop rateTicks_def)

lemma rateTicks_eval:
  "rateTicks =
     [(), (), (), (), (), (), (), (), (), (), (), (), (), (), (), (), (), (), (), (), (), (),
      (), (), (), (), (), (), (), (), (), (), (), (), (), (), (), (), (), (), (), (), (), (),
      (), (), (), (), (), (), (), (), (), (), (), (), (), (), (), (), (), (), (), (), (), (),
      (), (), (), (), (), (), (), (), (), (), (), (), (), (), (), (), (), (), (), (), (), (),
      (), (), (), (), (), (), (), (), (), (), (), (), (), (), (), (), (), (), (), (), (), (),
      (), (), (), (), (), (), (), (), (), (), (), (), (), (), (), (), (), (), (), (), (), (),
      (), (), (), ()]"
  by (simp add: rateTicks_def replicate_numeral)

lemma take4: "take 4 (a # b # c # d # rest) = [a, b, c, d]"
  by simp

lemma natBits_numeral: "natBits (numeral k) = numBits k"
proof (induction k)
  case One
  then show ?case by (subst natBits.simps, subst natBits.simps) simp
next
  case (Bit0 k)
  have "natBits (numeral (num.Bit0 k)) = False # natBits (numeral k)"
    by (subst natBits.simps) simp
  then show ?case using Bit0 by simp
next
  case (Bit1 k)
  have "natBits (numeral (num.Bit1 k)) = True # natBits (numeral k)"
    by (subst natBits.simps) simp
  then show ?case using Bit1 by simp
qed

lemma natBits_one: "natBits (Suc 0) = [True]"
  by (subst natBits.simps, subst natBits.simps) simp

lemma natBits_zero: "natBits 0 = []"
  by (subst natBits.simps) simp

lemmas keccak_rounds =
  xorL.simps chiL.simps bxor.simps chiBit_table xor5_def thetaC.simps(1) thetaD.simps(1)
  thetaXor.simps(1) theta_def rhoPi.simps(1) chi.simps(1) iota.simps rounds.simps rotl_eval
  rotT_def takeT.simps dropT.simps append.simps

lemmas keccak_sponge =
  absorb_step rateTicks_eval keccakF_def roundConstants_def take4
  list.map concat.simps rev.simps hexBytes.simps nibble.simps letterNibble.simps byteOf.simps
  laneOf.simps lanesOf.simps xorInto.simps bytesOf.simps hexOf.simps hexDigit.simps
  list.distinct if_True if_False simp_thms

lemmas keccak_input =
  keccak256_def keccak_def toUtf8Bytes_def pad_def Let_def replicate_numeral zeroState_def
  solidityPacked_def packValue_def beBytes_def natBits_numeral natBits_one natBits_zero
  decValue_def getProp_def

section \<open>The digests of the debug scripts (C4)\<close>

text \<open>
  Every hash the two scripts compute, by running Keccak-256. The hash of the domain type
  string is the well-known EIP-712 domain type hash.
\<close>

lemma domainTypeHash_value:
  "domainTypeHash = ''0x8b73c3c69bb8fe3d512ecc4cf759cc79239f7b179b0ffacaa9a75d522b39400f''"
  apply (simp add: domainTypeHash_def keccak_input)
  apply (simp only: keccak_rounds keccak_sponge cong: if_weak_cong)
  done

lemma nameHash_value:
  "nameHash = ''0x6c85c0337eba1661327f94f3bf46c8a7f9311a563f4d5c948362567f5d8ed60c''"
  apply (simp add: nameHash_def keccak_input gnosisDomain_def)
  apply (simp only: keccak_rounds keccak_sponge cong: if_weak_cong)
  done

lemma versionHash_value:
  "versionHash = ''0xf9446b8e937d86f0bc87cac73923491692b123ca5f8761908494703758206adf''"
  apply (simp add: versionHash_def keccak_input gnosisDomain_def)
  apply (simp only: keccak_rounds keccak_sponge cong: if_weak_cong)
  done

lemma domainSeparator_value:
  "domainSeparator = ''0x03bb976018065c184bf89faff71072a30a6b3905cd8e4728c3d97363877dc18c''"
  apply (simp add: domainSeparator_def keccak_input gnosisDomain_def domainTypeHash_value nameHash_value versionHash_value)
  apply (simp only: keccak_rounds keccak_sponge cong: if_weak_cong)
  done

lemma debugOrderTypeHash_value:
  "debugOrderTypeHash = ''0xd5a25ba2e97094ad7d83dc28a6572da797d6b3e7fc6663bd93efb789fc17e489''"
  apply (simp add: debugOrderTypeHash_def keccak_input)
  apply (simp only: keccak_rounds keccak_sponge cong: if_weak_cong)
  done

lemma recoverOrderTypeHash_value:
  "recoverOrderTypeHash = ''0x8dab20ac4eaeaf99ac959c7d1b67e5f69ecda875178387560c3e1485d04e6a09''"
  apply (simp add: recoverOrderTypeHash_def keccak_input)
  apply (simp only: keccak_rounds keccak_sponge cong: if_weak_cong)
  done

text \<open>The hashes of the strings that occur as field values.\<close>

lemma hash_of_Sell:
  "keccak256 (toUtf8Bytes ''Sell'')
     = ''0x2960d925d7f3fc57a6fc5d05aac27fd1ae17fcf2a31a901375f427c5224e3219''"
  apply (simp add: keccak_input)
  apply (simp only: keccak_rounds keccak_sponge cong: if_weak_cong)
  done

lemma hash_of_sell:
  "keccak256 (toUtf8Bytes ''sell'')
     = ''0xf3b277728b3fee749481eb3e0b3b48980dbbab78658fc419025cb16eee346775''"
  apply (simp add: keccak_input)
  apply (simp only: keccak_rounds keccak_sponge cong: if_weak_cong)
  done

lemma hash_of_erc20:
  "keccak256 (toUtf8Bytes ''erc20'')
     = ''0x5a28e9363bb942b639270062aa6bb295f434bcdfc42c97267bf003f272060dc9''"
  apply (simp add: keccak_input)
  apply (simp only: keccak_rounds keccak_sponge cong: if_weak_cong)
  done

lemma hash_of_kind_text:
  "keccak256 (toUtf8Bytes ''0xf3b277728b3fee749481eb3e0b3b48980dbbab78658fc419025cb16eee346775'')
     = ''0xd5af80d66f3123637e65e6675f034f970ac61bd2d33703f85aa3c5e449740cb0''"
  apply (simp add: keccak_input)
  apply (simp only: keccak_rounds keccak_sponge cong: if_weak_cong)
  done

text \<open>The run of \<^verbatim>\<open>debugEIP712Construction\<close>.\<close>

lemma debugMessage_slots:
  "kindHash debugMessage = ''0x2960d925d7f3fc57a6fc5d05aac27fd1ae17fcf2a31a901375f427c5224e3219''"
  "sellTokenBalanceHash debugMessage
     = ''0x5a28e9363bb942b639270062aa6bb295f434bcdfc42c97267bf003f272060dc9''"
  "buyTokenBalanceHash debugMessage
     = ''0x5a28e9363bb942b639270062aa6bb295f434bcdfc42c97267bf003f272060dc9''"
  by (simp_all add: kindHash_def sellTokenBalanceHash_def buyTokenBalanceHash_def
        debugMessage_def getProp_def hash_of_Sell hash_of_erc20)

lemma debugStructHash_value:
  "debugStructHash debugMessage
     = ''0x6161feb29b057ab2e434c998c900344852b517d175761a4486c4dd303febf2c1''"
  apply (simp only: debugStructHash_def debugStructEncoding_def debugMessage_slots
        debugOrderTypeHash_value)
  apply (simp add: debugMessage_def keccak_input)
  apply (simp only: keccak_rounds keccak_sponge cong: if_weak_cong)
  done

lemma debugDigest_value:
  "debugDigest debugMessage
     = ''0xb70f430837237ff4de59892f53aaafeba25b3fab97f49c8b01f835dc75fef749''"
  apply (simp only: debugDigest_def debugStructHash_value domainSeparator_value)
  apply (simp add: keccak_input)
  apply (simp only: keccak_rounds keccak_sponge cong: if_weak_cong)
  done

text \<open>The run of \<^verbatim>\<open>recoverAddressTest\<close>.\<close>

lemma recoverStructHash_value:
  "recoverStructHash recoverMessage
     = ''0xb7333d306396f9b3242c025e922c86b125ade5173f908aa938538b24a274ebf6''"
  apply (simp only: recoverStructHash_def recoverStructEncoding_def recoverOrderTypeHash_value)
  apply (simp add: recoverMessage_def keccak_input)
  apply (simp only: keccak_rounds keccak_sponge cong: if_weak_cong)
  done

lemma ourEIP712Hash_value:
  "ourEIP712Hash recoverMessage
     = ''0xa18873e7be288bf85b4a72e2dad0c5de8d7ca64ae5ffc1de27101a944f0a1a37''"
  apply (simp only: ourEIP712Hash_def recoverStructHash_value domainSeparator_value)
  apply (simp add: keccak_input)
  apply (simp only: keccak_rounds keccak_sponge cong: if_weak_cong)
  done

text \<open>
  The construction of \<^verbatim>\<open>debugEIP712Construction\<close> on the order of \<^verbatim>\<open>recoverAddressTest\<close>,
  given as strings.
\<close>

lemma recoverMessageAsStrings_slots:
  "kindHash recoverMessageAsStrings
     = ''0xf3b277728b3fee749481eb3e0b3b48980dbbab78658fc419025cb16eee346775''"
  "sellTokenBalanceHash recoverMessageAsStrings
     = ''0x5a28e9363bb942b639270062aa6bb295f434bcdfc42c97267bf003f272060dc9''"
  "buyTokenBalanceHash recoverMessageAsStrings
     = ''0x5a28e9363bb942b639270062aa6bb295f434bcdfc42c97267bf003f272060dc9''"
  by (simp_all add: kindHash_def sellTokenBalanceHash_def buyTokenBalanceHash_def
        recoverMessageAsStrings_def getProp_def hash_of_sell hash_of_erc20)

lemma debugStructHash_strings:
  "debugStructHash recoverMessageAsStrings
     = ''0xd83344fd2e1f90ef2b8302d13db6a7eb428b95e22c6773882eadc5d8ec235358''"
  apply (simp only: debugStructHash_def debugStructEncoding_def recoverMessageAsStrings_slots
        debugOrderTypeHash_value)
  apply (simp add: recoverMessageAsStrings_def keccak_input)
  apply (simp only: keccak_rounds keccak_sponge cong: if_weak_cong)
  done

lemma debugDigest_strings:
  "debugDigest recoverMessageAsStrings
     = ''0xb8623ca29531e41a14eeadc7df1aa1a3c4fb7f7282aee151be1e8ff574774db7''"
  apply (simp only: debugDigest_def debugStructHash_strings domainSeparator_value)
  apply (simp add: keccak_input)
  apply (simp only: keccak_rounds keccak_sponge cong: if_weak_cong)
  done

text \<open>
  The two encodings of that order differ in their first 32 bytes, the type hash, and in
  nothing else: every one of the twelve slots holds the same bytes.
\<close>

lemma slots_agree:
  "drop 32 (debugStructEncoding recoverMessageAsStrings)
     = drop 32 (recoverStructEncoding recoverMessage)"
  apply (simp only: debugStructEncoding_def recoverStructEncoding_def
        recoverMessageAsStrings_slots debugOrderTypeHash_value recoverOrderTypeHash_value)
  apply (simp add: recoverMessageAsStrings_def recoverMessage_def solidityPacked_def
        packValue_def beBytes_def natBits_numeral natBits_one natBits_zero decValue_def
        getProp_def replicate_numeral)
  done

lemma type_hashes_lead:
  "take 32 (debugStructEncoding message) = getBytes debugOrderTypeHash"
  "take 32 (recoverStructEncoding message) = getBytes recoverOrderTypeHash"
  by (simp_all add: debugStructEncoding_def recoverStructEncoding_def solidityPacked_def
        packValue_def debugOrderTypeHash_value recoverOrderTypeHash_value)

text \<open>
  C4. Take the 12-field order of \<^verbatim>\<open>recoverAddressTest\<close>. Encoded the way
  \<^verbatim>\<open>debugEIP712Construction\<close> does, with \<^verbatim>\<open>kind\<close>, \<^verbatim>\<open>sellTokenBalance\<close> and \<^verbatim>\<open>buyTokenBalance\<close>
  declared \<^verbatim>\<open>string\<close> and given as the strings \<^verbatim>\<open>sell\<close>, \<^verbatim>\<open>erc20\<close>, \<^verbatim>\<open>erc20\<close>, the slot of each is
  the Keccak-256 hash of the string. Encoded the way \<^verbatim>\<open>recoverAddressTest\<close> does, with the
  three fields declared \<^verbatim>\<open>bytes32\<close>, the slot of each is the 32 bytes of the message, packed
  raw. These are the same 32 bytes, and so are the other nine slots: the two encodings
  differ in the type hash alone, which is the hash of a type string that says \<^verbatim>\<open>string\<close>
  in one and \<^verbatim>\<open>bytes32\<close> in the other. The struct hashes differ and the final digests
  differ; their values are the ones below. Hashing is not packing: the hash that the
  first script takes of a field's text is not the 32 bytes that the second script packs
  for the same text. The last two values are those of the run of
  \<^verbatim>\<open>debugEIP712Construction\<close> on its own message.
\<close>

theorem dynamic_and_fixed_encodings_differ:
  "kindHash recoverMessageAsStrings = strOf (getProp recoverMessage ''kind'')
   \<and> sellTokenBalanceHash recoverMessageAsStrings
       = strOf (getProp recoverMessage ''sellTokenBalance'')
   \<and> buyTokenBalanceHash recoverMessageAsStrings
       = strOf (getProp recoverMessage ''buyTokenBalance'')
   \<and> drop 32 (debugStructEncoding recoverMessageAsStrings)
       = drop 32 (recoverStructEncoding recoverMessage)
   \<and> take 32 (debugStructEncoding recoverMessageAsStrings) = getBytes debugOrderTypeHash
   \<and> take 32 (recoverStructEncoding recoverMessage) = getBytes recoverOrderTypeHash
   \<and> debugOrderTypeHash
       = ''0xd5a25ba2e97094ad7d83dc28a6572da797d6b3e7fc6663bd93efb789fc17e489''
   \<and> recoverOrderTypeHash
       = ''0x8dab20ac4eaeaf99ac959c7d1b67e5f69ecda875178387560c3e1485d04e6a09''
   \<and> debugStructHash recoverMessageAsStrings
       = ''0xd83344fd2e1f90ef2b8302d13db6a7eb428b95e22c6773882eadc5d8ec235358''
   \<and> recoverStructHash recoverMessage
       = ''0xb7333d306396f9b3242c025e922c86b125ade5173f908aa938538b24a274ebf6''
   \<and> debugStructHash recoverMessageAsStrings \<noteq> recoverStructHash recoverMessage
   \<and> debugDigest recoverMessageAsStrings
       = ''0xb8623ca29531e41a14eeadc7df1aa1a3c4fb7f7282aee151be1e8ff574774db7''
   \<and> ourEIP712Hash recoverMessage
       = ''0xa18873e7be288bf85b4a72e2dad0c5de8d7ca64ae5ffc1de27101a944f0a1a37''
   \<and> debugDigest recoverMessageAsStrings \<noteq> ourEIP712Hash recoverMessage
   \<and> kindHash recoverMessage
       = ''0xd5af80d66f3123637e65e6675f034f970ac61bd2d33703f85aa3c5e449740cb0''
   \<and> getBytes (kindHash recoverMessage) \<noteq> packValue ''bytes32'' (getProp recoverMessage ''kind'')
   \<and> debugStructHash debugMessage
       = ''0x6161feb29b057ab2e434c998c900344852b517d175761a4486c4dd303febf2c1''
   \<and> debugDigest debugMessage
       = ''0xb70f430837237ff4de59892f53aaafeba25b3fab97f49c8b01f835dc75fef749''"
proof -
  have raw: "strOf (getProp recoverMessage ''kind'')
               = ''0xf3b277728b3fee749481eb3e0b3b48980dbbab78658fc419025cb16eee346775''"
    "strOf (getProp recoverMessage ''sellTokenBalance'')
               = ''0x5a28e9363bb942b639270062aa6bb295f434bcdfc42c97267bf003f272060dc9''"
    "strOf (getProp recoverMessage ''buyTokenBalance'')
               = ''0x5a28e9363bb942b639270062aa6bb295f434bcdfc42c97267bf003f272060dc9''"
    by (simp_all add: recoverMessage_def getProp_def)
  have text_hash: "kindHash recoverMessage
       = ''0xd5af80d66f3123637e65e6675f034f970ac61bd2d33703f85aa3c5e449740cb0''"
    by (simp add: kindHash_def raw hash_of_kind_text)
  have unlike: "getBytes (kindHash recoverMessage)
                  \<noteq> packValue ''bytes32'' (getProp recoverMessage ''kind'')"
    unfolding text_hash by (simp add: packValue_def recoverMessage_def getProp_def)
  have structs: "debugStructHash recoverMessageAsStrings \<noteq> recoverStructHash recoverMessage"
    by (simp add: debugStructHash_strings recoverStructHash_value)
  have digests: "debugDigest recoverMessageAsStrings \<noteq> ourEIP712Hash recoverMessage"
    by (simp add: debugDigest_strings ourEIP712Hash_value)
  show ?thesis
    using raw text_hash unlike structs digests recoverMessageAsStrings_slots slots_agree
      type_hashes_lead [of recoverMessageAsStrings] type_hashes_lead [of recoverMessage]
      debugOrderTypeHash_value recoverOrderTypeHash_value debugStructHash_strings
      recoverStructHash_value debugDigest_strings ourEIP712Hash_value debugStructHash_value
      debugDigest_value
    by simp
qed

end
